theory Spec2Isabelle
  imports Complex_Main
begin

section \<open>Values shared by the two scripts\<close>

text \<open>
  The repository holds two scripts: \<^verbatim>\<open>seesea/model/multihead/train.py\<close> (training of the
  multi-head regression model) and \<^verbatim>\<open>seesea/model/test_beaufort.py\<close> (testing of the
  Beaufort classifier). Both are sequences of calls into libraries (transformers,
  datasets, evaluate, torch). A library call is modelled as a value naming the call and
  its arguments; a script's \<^verbatim>\<open>main\<close> is a function from the parsed arguments, and from
  what the outside world answers, to the list of calls it makes, in order. Exceptions
  raised by the script's own Python code are values of \<open>py_error\<close>. A library call is
  taken to return normally, with two exceptions where the argument the script passes
  makes the call raise in every environment: a negative rotation angle given to
  \<^verbatim>\<open>RandomRotation\<close>, and the empty path given to \<^verbatim>\<open>torch.load\<close>. The statements about
  \<^verbatim>\<open>main\<close> are therefore about runs that return.
\<close>

datatype py_error =
    ZeroDivisionError
  | KeyError string
  | TypeError
  | ValueError
  | IndexError
  | FileNotFoundError string

text \<open>
  \<^verbatim>\<open>os.path.join(a, b)\<close> on a POSIX system: an absolute \<open>b\<close> replaces \<open>a\<close>; otherwise the
  two are concatenated, with a separator unless \<open>a\<close> is empty or ends with one.
\<close>

definition path_join :: "string \<Rightarrow> string \<Rightarrow> string" where
  "path_join a b =
     (if take 1 b = ''/'' then b
      else if a = [] \<or> last a = CHR ''/'' then a @ b
      else a @ ''/'' @ b)"

text \<open>\<^verbatim>\<open>os.pardir\<close>\<close>

definition pardir :: string where
  "pardir = ''..''"

text \<open>\<^verbatim>\<open>sep.join(xs)\<close> on strings.\<close>

fun str_join :: "string \<Rightarrow> string list \<Rightarrow> string" where
  "str_join s [] = []"
| "str_join s [x] = x"
| "str_join s (x # y # ys) = x @ s @ str_join s (y # ys)"

text \<open>
  \<^verbatim>\<open>AutoImageProcessor.from_pretrained(src)\<close>: the processor is known by where it was
  loaded from.
\<close>

datatype image_processor = ImageProcessor string

text \<open>
  The functions mapped over a streaming dataset: \<^verbatim>\<open>partial(augment_batch, RandomRotation(r))\<close>,
  \<^verbatim>\<open>partial(preprocess_batch, image_processor, output_names)\<close> and
  \<^verbatim>\<open>partial(preprocess_batch_beaufort, image_processor)\<close>.
\<close>

datatype map_fn =
    AugmentBatch real
  | PreprocessBatch image_processor "string list option"
  | PreprocessBatchBeaufort image_processor

datatype ds_step =
    Take int
  | Shuffle
  | MapBatched map_fn
  | SelectColumns "string list"

text \<open>
  A streaming dataset: the directory and split it is loaded from, and the steps chained
  onto it, first step first.
\<close>

record dataset =
  data_dir :: string
  ds_split :: string
  ds_steps :: "ds_step list"

datatype device = Cuda | Mps | Cpu

text \<open>
  A model object: a fresh \<^verbatim>\<open>MultiHeadModel(base_model, n)\<close> over the base model loaded
  from a hub name, or whatever \<^verbatim>\<open>torch.load(path)\<close> returns.
\<close>

datatype model_obj =
    MultiHeadModel string nat
  | TorchLoaded string

text \<open>
  Training arguments: a fresh \<^verbatim>\<open>TrainingArguments(...)\<close> with the keyword arguments of
  the source, or the object loaded from a checkpoint's \<^verbatim>\<open>training_args.bin\<close> together
  with whether \<^verbatim>\<open>ignore_data_skip = True\<close> has been assigned on it.
\<close>

record training_arguments =
  ta_output_dir :: string
  eval_strategy :: string
  save_strategy :: string
  load_best_model_at_end :: bool
  save_total_limit :: int
  ta_learning_rate :: real
  lr_scheduler_type :: string
  ta_warmup_ratio :: real
  per_device_train_batch_size :: int
  per_device_eval_batch_size :: int
  logging_strategy :: string
  logging_steps :: int
  max_steps :: int

datatype training_args =
    TrainingArguments training_arguments
  | LoadedTrainingArguments string bool

record trainer =
  tr_model :: model_obj
  tr_args :: training_args
  tr_train_dataset :: dataset
  tr_eval_dataset :: dataset
  tr_metric_output_names :: "string list option"

type_synonym batch = nat

datatype log_msg =
    LogTrainingOutputs "string list option"
  | LogSplitSizesLoaded string int
  | LogNoSplitSizes int
  | LogRotation real
  | LogTestResults
  | LogModelSaved string
  | LogTestDuration
  | LogAccuracy

datatype call =
    LogInfo log_msg
  | Makedirs string
  | DatetimeNow
  | ImageProcessorFromPretrained string
  | SavePretrained image_processor string
  | ModelFromPretrained string
  | TorchLoad string
  | LoadDataset string "string option"
  | EvaluateLoad string
  | TrainerTrain trainer "string option"
  | TrainerPredict trainer dataset
  | TorchSave model_obj string
  | WriteFile string string
  | ModelTo device
  | ModelEval
  | BatchTo batch device
  | ModelForward batch
  | AccuracyAddBatch batch


section \<open>The Beaufort test script\<close>

text \<open>The namespace \<^verbatim>\<open>get_args_parser().parse_args()\<close> returns in \<^verbatim>\<open>test_beaufort.py\<close>.\<close>

record test_args =
  model_dir :: string
  dataset_arg :: string
  output_arg :: string
  split_arg :: string
  batch_size :: int
  log :: string

text \<open>\<^verbatim>\<open>DataLoader(dataset, collate_fn=DefaultDataCollator(), batch_size=...)\<close>\<close>

record dataloader =
  dl_dataset :: dataset
  dl_batch_size :: int

text \<open>
  What the machine answers: whether CUDA and MPS are available, and the batches a data
  loader yields.
\<close>

record test_env =
  cuda_is_available :: bool
  mps_is_available :: bool
  loader_batches :: "dataloader \<Rightarrow> batch list"

text \<open>Lines 37 to 42 of \<^verbatim>\<open>test_beaufort.py\<close>: the \<^verbatim>\<open>if\<close>/\<^verbatim>\<open>elif\<close>/\<^verbatim>\<open>else\<close> that sets \<^verbatim>\<open>device\<close>.\<close>

definition select_device :: "test_env \<Rightarrow> device" where
  "select_device env =
     (if cuda_is_available env then Cuda
      else if mps_is_available env then Mps
      else Cpu)"

text \<open>The body of the \<^verbatim>\<open>for batch in tqdm(loader, ...)\<close> loop, lines 52 to 59.\<close>

fun test_loop :: "device \<Rightarrow> batch list \<Rightarrow> call list" where
  "test_loop dev [] = []"
| "test_loop dev (b # bs) =
     [BatchTo b dev, ModelForward b, AccuracyAddBatch b] @ test_loop dev bs"

definition test_beaufort_main :: "test_env \<Rightarrow> test_args \<Rightarrow> call list" where
  "test_beaufort_main env args =
     (let image_processor = ImageProcessor (model_dir args);
          map_fn = PreprocessBatchBeaufort image_processor;
          dataset = \<lparr>data_dir = dataset_arg args, ds_split = split_arg args,
                     ds_steps = [MapBatched map_fn, SelectColumns [''labels'', ''pixel_values'']]\<rparr>;
          loader = \<lparr>dl_dataset = dataset, dl_batch_size = test_args.batch_size args\<rparr>;
          device = select_device env
      in [TorchLoad (path_join (model_dir args) ''model.pt''),
          ImageProcessorFromPretrained (model_dir args),
          LoadDataset (dataset_arg args) (Some (split_arg args)),
          ModelTo device,
          DatetimeNow,
          EvaluateLoad ''accuracy'',
          ModelEval]
         @ test_loop device (loader_batches env loader)
         @ [DatetimeNow, LogInfo LogTestDuration, LogInfo LogAccuracy])"


section \<open>Batch preprocessing\<close>

text \<open>
  Python values as far as \<^verbatim>\<open>preprocess_batch\<close> looks into them: strings, lists,
  dictionaries with string keys (in insertion order), and everything else (numbers,
  \<^verbatim>\<open>None\<close>, images, tensors) as an atom.
\<close>

datatype 'a pyval =
    Atom 'a
  | Str string
  | List "'a pyval list"
  | Dict "(string \<times> 'a pyval) list"

text \<open>\<^verbatim>\<open>obj[key]\<close> for a string \<open>key\<close>: a dictionary looks the key up, anything else raises.\<close>

definition subscript :: "'a pyval \<Rightarrow> string \<Rightarrow> py_error + 'a pyval" where
  "subscript obj key =
     (case obj of
        Dict kvs \<Rightarrow> (case map_of kvs key of None \<Rightarrow> Inl (KeyError key) | Some v \<Rightarrow> Inr v)
      | _ \<Rightarrow> Inl TypeError)"

text \<open>
  \<^verbatim>\<open>for x in obj\<close>: a list yields its elements, a dictionary its keys, a string its
  characters; an atom is not iterable.
\<close>

definition iterate :: "'a pyval \<Rightarrow> py_error + 'a pyval list" where
  "iterate obj =
     (case obj of
        List xs \<Rightarrow> Inr xs
      | Dict kvs \<Rightarrow> Inr (map (\<lambda>kv. Str (fst kv)) kvs)
      | Str s \<Rightarrow> Inr (map (\<lambda>c. Str [c]) s)
      | Atom a \<Rightarrow> Inl TypeError)"

text \<open>The inner comprehension \<^verbatim>\<open>[obj[key] for key in label_keys]\<close>.\<close>

fun label_row :: "string list \<Rightarrow> 'a pyval \<Rightarrow> py_error + 'a pyval list" where
  "label_row [] obj = Inr []"
| "label_row (key # keys) obj =
     (case subscript obj key of
        Inl e \<Rightarrow> Inl e
      | Inr v \<Rightarrow> (case label_row keys obj of Inl e \<Rightarrow> Inl e | Inr vs \<Rightarrow> Inr (v # vs)))"

text \<open>The outer comprehension \<^verbatim>\<open>[[...] for obj in samples["json"]]\<close>, over the objects iterated.\<close>

fun label_rows :: "string list \<Rightarrow> 'a pyval list \<Rightarrow> py_error + 'a pyval list list" where
  "label_rows keys [] = Inr []"
| "label_rows keys (obj # objs) =
     (case label_row keys obj of
        Inl e \<Rightarrow> Inl e
      | Inr row \<Rightarrow> (case label_rows keys objs of Inl e \<Rightarrow> Inl e | Inr rows \<Rightarrow> Inr (row # rows)))"

text \<open>
  \<^verbatim>\<open>preprocess_batch(transform, label_keys, samples)\<close>. The batch is a dictionary from column
  names to values; a missing column raises \<^verbatim>\<open>KeyError\<close>. The transform is a parameter. The
  assignment to \<^verbatim>\<open>pixel_values\<close> comes first, and \<^verbatim>\<open>samples["json"]\<close> is read from the
  updated batch.
\<close>

definition preprocess_batch ::
  "('a pyval \<Rightarrow> 'a pyval) \<Rightarrow> string list \<Rightarrow> (string \<rightharpoonup> 'a pyval) \<Rightarrow>
     py_error + (string \<rightharpoonup> 'a pyval)" where
  "preprocess_batch transform label_keys samples =
     (case samples ''jpg'' of
        None \<Rightarrow> Inl (KeyError ''jpg'')
      | Some jpg \<Rightarrow>
     (case subscript (transform jpg) ''pixel_values'' of
        Inl e \<Rightarrow> Inl e
      | Inr px \<Rightarrow>
     (let samples1 = samples(''pixel_values'' \<mapsto> px) in
     (case samples1 ''json'' of
        None \<Rightarrow> Inl (KeyError ''json'')
      | Some js \<Rightarrow>
     (case iterate js of
        Inl e \<Rightarrow> Inl e
      | Inr objs \<Rightarrow>
     (case label_rows label_keys objs of
        Inl e \<Rightarrow> Inl e
      | Inr rows \<Rightarrow> Inr (samples1(''labels'' \<mapsto> List (map List rows)))))))))"


section \<open>Metrics\<close>

text \<open>
  A two-dimensional array: its shape and its cells in row-major order. It is well formed
  when the number of cells is the product of the two dimensions.
\<close>

record 'a ndarray =
  nrows :: nat
  ncols :: nat
  cells :: "'a list"

definition ndarray_ok :: "'a ndarray \<Rightarrow> bool" where
  "ndarray_ok a = (length (cells a) = nrows a * ncols a)"

text \<open>\<^verbatim>\<open>a[:, i]\<close> for a non-negative \<open>i\<close>: the column, or \<^verbatim>\<open>IndexError\<close> beyond the last column.\<close>

definition column :: "'a ndarray \<Rightarrow> nat \<Rightarrow> py_error + 'a list" where
  "column a i =
     (if i < ncols a then Inr (map (\<lambda>r. cells a ! (r * ncols a + i)) [0..<nrows a])
      else Inl IndexError)"

text \<open>\<^verbatim>\<open>a.flatten()\<close>\<close>

definition flatten :: "'a ndarray \<Rightarrow> 'a list" where
  "flatten a = cells a"

text \<open>The key \<^verbatim>\<open>f"mae_{name}"\<close>.\<close>

definition mae_key :: "string \<Rightarrow> string" where
  "mae_key name = ''mae_'' @ name"

text \<open>
  The loop \<^verbatim>\<open>for i, name in enumerate(output_names)\<close> of \<^verbatim>\<open>compute_metrics\<close>, from index \<open>i\<close>
  on. The metric is a parameter: \<open>metric predictions references\<close> is the dictionary
  \<^verbatim>\<open>metric.compute(predictions=..., references=...)\<close> returns, or the error it raises.
\<close>

fun compute_metrics_loop ::
  "('a list \<Rightarrow> 'a list \<Rightarrow> py_error + (string \<rightharpoonup> 'r)) \<Rightarrow> 'a ndarray \<Rightarrow> 'a ndarray \<Rightarrow>
     nat \<Rightarrow> string list \<Rightarrow> (string \<rightharpoonup> 'r) \<Rightarrow> py_error + (string \<rightharpoonup> 'r)" where
  "compute_metrics_loop metric predictions labels i [] results = Inr results"
| "compute_metrics_loop metric predictions labels i (name # names) results =
     (case column predictions i of
        Inl e \<Rightarrow> Inl e
      | Inr pc \<Rightarrow>
     (case column labels i of
        Inl e \<Rightarrow> Inl e
      | Inr lc \<Rightarrow>
     (case metric pc lc of
        Inl e \<Rightarrow> Inl e
      | Inr d \<Rightarrow>
     (case d ''mae'' of
        None \<Rightarrow> Inl (KeyError ''mae'')
      | Some v \<Rightarrow>
          compute_metrics_loop metric predictions labels (Suc i) names
            (results(mae_key name \<mapsto> v))))))"

definition compute_metrics ::
  "('a list \<Rightarrow> 'a list \<Rightarrow> py_error + (string \<rightharpoonup> 'r)) \<Rightarrow> string list \<Rightarrow>
     'a ndarray \<times> 'a ndarray \<Rightarrow> py_error + (string \<rightharpoonup> 'r)" where
  "compute_metrics metric output_names eval_pred =
     (case eval_pred of (logits, labels) \<Rightarrow>
     (let predictions = logits in
     (case compute_metrics_loop metric predictions labels 0 output_names Map.empty of
        Inl e \<Rightarrow> Inl e
      | Inr results \<Rightarrow>
     (case metric (flatten predictions) (flatten labels) of
        Inl e \<Rightarrow> Inl e
      | Inr d \<Rightarrow>
     (case d ''mae'' of
        None \<Rightarrow> Inl (KeyError ''mae'')
      | Some v \<Rightarrow> Inr (results(''mae'' \<mapsto> v)))))))"

text \<open>
  The metric \<^verbatim>\<open>main\<close> passes is \<^verbatim>\<open>evaluate.load("mae")\<close>, a library object: the mean of the
  absolute differences, under the key \<^verbatim>\<open>mae\<close>; it raises on inputs of different lengths and
  on empty inputs. The library computes in floating point. The two definitions below
  compute in the real numbers and serve the concrete examples only, on small integers and
  halves, where the floating-point sums and quotients are exact; no general statement is
  made about them.
\<close>

definition mean_absolute_error :: "real list \<Rightarrow> real list \<Rightarrow> py_error + real" where
  "mean_absolute_error predictions references =
     (if length predictions \<noteq> length references \<or> predictions = [] then Inl ValueError
      else Inr (sum_list (map2 (\<lambda>p r. \<bar>p - r\<bar>) predictions references)
                / real (length predictions)))"

definition mae_metric :: "real list \<Rightarrow> real list \<Rightarrow> py_error + (string \<rightharpoonup> real)" where
  "mae_metric predictions references =
     (case mean_absolute_error predictions references of
        Inl e \<Rightarrow> Inl e
      | Inr v \<Rightarrow> Inr [''mae'' \<mapsto> v])"

text \<open>Reading a key of the dictionary a call returned; \<open>None\<close> when it raised or has no such key.\<close>

definition result_value :: "'e + (string \<rightharpoonup> 'r) \<Rightarrow> string \<Rightarrow> 'r option" where
  "result_value res key = (case res of Inl e \<Rightarrow> None | Inr d \<Rightarrow> d key)"

section \<open>The training script\<close>

text \<open>
  The namespace \<^verbatim>\<open>get_args_parser().parse_args()\<close> returns in \<^verbatim>\<open>train.py\<close>. The
  attributes \<^verbatim>\<open>input\<close> and \<^verbatim>\<open>output\<close> carry a suffix here. \<^verbatim>\<open>--output-names\<close> has no
  default, so the attribute is \<^verbatim>\<open>None\<close> when the option is absent.
\<close>

record train_args =
  input_arg :: string
  rotation :: "real option"
  log :: string
  log_file :: "string option"
  checkpoint :: "string option"
  model :: string
  output_arg :: string
  epochs :: int
  batch_size :: int
  learning_rate :: real
  warmup_ratio :: real
  output_names :: "string list option"

text \<open>
  What the outside world answers to \<^verbatim>\<open>main\<close>: the formatted start time, and for a path
  the content of the JSON object stored there (\<open>None\<close> when no such file exists). The
  values of the JSON object are taken to be integers.
\<close>

record train_env =
  timestamp_str :: string
  json_file :: "string \<Rightarrow> (string \<rightharpoonup> int) option"

text \<open>What a completed run of \<^verbatim>\<open>main\<close> has bound to its local variables, and the calls it made.\<close>

record train_run =
  output_dir :: string
  num_training_samples :: int
  image_processor :: image_processor
  run_model :: model_obj
  run_training_args :: training_args
  train_ds :: dataset
  val_ds :: dataset
  test_ds :: dataset
  calls :: "call list"

text \<open>Lines 65 to 70: \<^verbatim>\<open>if args.checkpoint:\<close> tests the truth value, so \<^verbatim>\<open>None\<close> and the empty
  string both take the \<^verbatim>\<open>else\<close> branch.\<close>

definition main_output_dir :: "train_env \<Rightarrow> train_args \<Rightarrow> string" where
  "main_output_dir env args =
     (case checkpoint args of
        None \<Rightarrow> path_join (output_arg args) (timestamp_str env)
      | Some cp \<Rightarrow>
          if cp \<noteq> [] then path_join cp pardir
          else path_join (output_arg args) (timestamp_str env))"

text \<open>Lines 72 to 83: the number of training samples and the message logged about it.\<close>

definition main_num_training_samples :: "train_env \<Rightarrow> train_args \<Rightarrow> py_error + int \<times> call list" where
  "main_num_training_samples env args =
     (case json_file env (path_join (input_arg args) ''split_sizes.json'') of
        Some split_sizes \<Rightarrow>
          (case split_sizes ''training'' of
             None \<Rightarrow> Inl (KeyError ''training'')
           | Some n \<Rightarrow>
               Inr (n, [LogInfo (LogSplitSizesLoaded
                          (path_join (input_arg args) ''split_sizes.json'') n)]))
      | None \<Rightarrow> Inr (65536, [LogInfo (LogNoSplitSizes 65536)]))"

text \<open>Python's \<^verbatim>\<open>a // b\<close> on integers: the floor of the quotient, an error when \<open>b = 0\<close>.\<close>

definition floordiv :: "int \<Rightarrow> int \<Rightarrow> py_error + int" where
  "floordiv a b = (if b = 0 then Inl ZeroDivisionError else Inr (a div b))"

text \<open>
  \<^verbatim>\<open>torch.load(path)\<close> opens the path. The empty path names no file on any file system, so
  the call raises \<^verbatim>\<open>FileNotFoundError\<close>; for every other path the call is taken to return.
\<close>

definition torch_load_error :: "string \<Rightarrow> py_error option" where
  "torch_load_error path = (if path = [] then Some (FileNotFoundError path) else None)"

text \<open>
  Lines 88 to 115: image processor, model and training arguments, with the calls made.
  The branch is chosen by \<^verbatim>\<open>args.checkpoint is None\<close>, so the empty string takes the
  checkpoint branch.
\<close>

definition main_setup ::
  "train_args \<Rightarrow> string \<Rightarrow> int \<Rightarrow>
     py_error + image_processor \<times> model_obj \<times> training_args \<times> call list" where
  "main_setup args out_dir n_steps =
     (case checkpoint args of
        None \<Rightarrow>
          (case output_names args of
             None \<Rightarrow> Inl TypeError
           | Some names \<Rightarrow>
               Inr (ImageProcessor (model args),
                    MultiHeadModel (model args) (length names),
                    TrainingArguments
                      \<lparr>ta_output_dir = out_dir,
                       eval_strategy = ''epoch'',
                       save_strategy = ''epoch'',
                       load_best_model_at_end = True,
                       save_total_limit = 1,
                       ta_learning_rate = learning_rate args,
                       lr_scheduler_type = ''cosine'',
                       ta_warmup_ratio = warmup_ratio args,
                       per_device_train_batch_size = batch_size args,
                       per_device_eval_batch_size = batch_size args,
                       logging_strategy = ''steps'',
                       logging_steps = 50,
                       max_steps = n_steps\<rparr>,
                    [ImageProcessorFromPretrained (model args),
                     SavePretrained (ImageProcessor (model args)) out_dir,
                     ModelFromPretrained (model args)]))
      | Some cp \<Rightarrow>
          (case torch_load_error cp of
             Some e \<Rightarrow> Inl e
           | None \<Rightarrow>
          (case torch_load_error (path_join cp ''training_args.bin'') of
             Some e \<Rightarrow> Inl e
           | None \<Rightarrow>
               Inr (ImageProcessor out_dir,
                    TorchLoaded cp,
                    LoadedTrainingArguments (path_join cp ''training_args.bin'') True,
                    [ImageProcessorFromPretrained out_dir,
                     TorchLoad cp,
                     TorchLoad (path_join cp ''training_args.bin'')]))))"

text \<open>
  Lines 117 to 120: \<^verbatim>\<open>transforms.RandomRotation(degrees)\<close> raises \<^verbatim>\<open>ValueError\<close> when its single
  number is negative; otherwise the rotation is logged.
\<close>

definition main_augmentation :: "train_args \<Rightarrow> py_error + call list" where
  "main_augmentation args =
     (case rotation args of
        None \<Rightarrow> Inr []
      | Some r \<Rightarrow> if r < 0 then Inl ValueError else Inr [LogInfo (LogRotation r)])"

text \<open>Lines 117 to 133 and 151: the three dataset pipelines.\<close>

definition main_train_ds :: "train_args \<Rightarrow> int \<Rightarrow> map_fn \<Rightarrow> dataset" where
  "main_train_ds args n map_fn =
     \<lparr>data_dir = input_arg args, ds_split = ''train'',
      ds_steps = [Take n, Shuffle]
        @ (case rotation args of None \<Rightarrow> [] | Some r \<Rightarrow> [MapBatched (AugmentBatch r)])
        @ [MapBatched map_fn, SelectColumns [''labels'', ''pixel_values'']]\<rparr>"

definition main_val_ds :: "train_args \<Rightarrow> map_fn \<Rightarrow> dataset" where
  "main_val_ds args map_fn =
     \<lparr>data_dir = input_arg args, ds_split = ''validation'',
      ds_steps = [MapBatched map_fn, SelectColumns [''labels'', ''pixel_values'']]\<rparr>"

definition main_test_ds :: "train_args \<Rightarrow> map_fn \<Rightarrow> dataset" where
  "main_test_ds args map_fn =
     \<lparr>data_dir = input_arg args, ds_split = ''test'',
      ds_steps = [MapBatched map_fn, SelectColumns [''labels'', ''pixel_values'']]\<rparr>"

text \<open>
  \<^verbatim>\<open>main\<close> of \<^verbatim>\<open>train.py\<close>. The last statement joins \<^verbatim>\<open>args.output_names\<close>, which raises
  \<^verbatim>\<open>TypeError\<close> on \<^verbatim>\<open>None\<close>.
\<close>

definition train_main :: "train_env \<Rightarrow> train_args \<Rightarrow> py_error + train_run" where
  "train_main env args =
     (let out_dir = main_output_dir env args in
      (case main_num_training_samples env args of
         Inl e \<Rightarrow> Inl e
       | Inr (n, log_calls) \<Rightarrow>
      (case floordiv n (batch_size args) of
         Inl e \<Rightarrow> Inl e
       | Inr steps_per_epoch \<Rightarrow>
      (let n_steps = steps_per_epoch * epochs args in
      (case main_setup args out_dir n_steps of
         Inl e \<Rightarrow> Inl e
       | Inr (processor, mdl, targs, setup_calls) \<Rightarrow>
      (case main_augmentation args of
         Inl e \<Rightarrow> Inl e
       | Inr rotation_calls \<Rightarrow>
      (let map_fn = PreprocessBatch processor (output_names args);
           train = main_train_ds args n map_fn;
           val = main_val_ds args map_fn;
           tst = main_test_ds args map_fn;
           tr = \<lparr>tr_model = mdl, tr_args = targs, tr_train_dataset = train,
                 tr_eval_dataset = val, tr_metric_output_names = output_names args\<rparr>
       in
      (case output_names args of
         None \<Rightarrow> Inl TypeError
       | Some names \<Rightarrow>
           Inr \<lparr>output_dir = out_dir,
                num_training_samples = n,
                image_processor = processor,
                run_model = mdl,
                run_training_args = targs,
                train_ds = train,
                val_ds = val,
                test_ds = tst,
                calls =
                  [LogInfo (LogTrainingOutputs (output_names args)),
                   Makedirs (output_arg args),
                   DatetimeNow]
                  @ log_calls
                  @ setup_calls
                  @ rotation_calls
                  @ [LoadDataset (input_arg args) None,
                     EvaluateLoad ''mae'',
                     TrainerTrain tr (checkpoint args),
                     TrainerPredict tr tst,
                     LogInfo LogTestResults,
                     TorchSave mdl (path_join out_dir ''model.pt''),
                     LogInfo (LogModelSaved out_dir),
                     WriteFile (path_join out_dir ''output_names.txt'')
                       (str_join [CHR 0x0A] names)]\<rparr>))))))))"

section \<open>The argument parsers\<close>

text \<open>
  Both scripts build an \<^verbatim>\<open>argparse.ArgumentParser\<close> in \<^verbatim>\<open>get_args_parser\<close>. The parser is
  modelled as the list of its \<^verbatim>\<open>add_argument\<close> calls, in order; \<^verbatim>\<open>argparse\<close> itself is
  library code, and \<open>parse_args\<close> below follows its documented behaviour for parsers of
  this shape: optional arguments only, each storing one value, or one or more with
  \<^verbatim>\<open>nargs="+"\<close>.
\<close>

datatype arg_type = TStr | TInt | TFloat

datatype arg_value = VNone | VStr string | VInt int | VFloat real | VList "arg_value list"

record argument =
  option_string :: string
  dest :: string
  arg_type :: arg_type
  nargs_plus :: bool
  arg_default :: arg_value
  required :: bool
  exclusive_group :: "nat option"

text \<open>\<^verbatim>\<open>get_args_parser\<close> of \<^verbatim>\<open>train.py\<close>, lines 168 to 204. Group 0 is the mutually exclusive
  group of line 181.\<close>

definition train_get_args_parser :: "argument list" where
  "train_get_args_parser =
     [\<lparr>option_string = ''--input'', dest = ''input'', arg_type = TStr, nargs_plus = False,
       arg_default = VStr ''data'', required = False, exclusive_group = None\<rparr>,
      \<lparr>option_string = ''--rotation'', dest = ''rotation'', arg_type = TFloat, nargs_plus = False,
       arg_default = VNone, required = False, exclusive_group = None\<rparr>,
      \<lparr>option_string = ''--log'', dest = ''log'', arg_type = TStr, nargs_plus = False,
       arg_default = VStr ''INFO'', required = False, exclusive_group = None\<rparr>,
      \<lparr>option_string = ''--log-file'', dest = ''log_file'', arg_type = TStr, nargs_plus = False,
       arg_default = VNone, required = False, exclusive_group = None\<rparr>,
      \<lparr>option_string = ''--checkpoint'', dest = ''checkpoint'', arg_type = TStr,
       nargs_plus = False, arg_default = VNone, required = False, exclusive_group = Some 0\<rparr>,
      \<lparr>option_string = ''--model'', dest = ''model'', arg_type = TStr, nargs_plus = False,
       arg_default = VStr ''resnet18'', required = False, exclusive_group = Some 0\<rparr>,
      \<lparr>option_string = ''--output'', dest = ''output'', arg_type = TStr, nargs_plus = False,
       arg_default = VStr ''data/train'', required = False, exclusive_group = None\<rparr>,
      \<lparr>option_string = ''--epochs'', dest = ''epochs'', arg_type = TInt, nargs_plus = False,
       arg_default = VInt 30, required = False, exclusive_group = None\<rparr>,
      \<lparr>option_string = ''--batch-size'', dest = ''batch_size'', arg_type = TInt,
       nargs_plus = False, arg_default = VInt 32, required = False, exclusive_group = None\<rparr>,
      \<lparr>option_string = ''--learning-rate'', dest = ''learning_rate'', arg_type = TFloat,
       nargs_plus = False, arg_default = VFloat 0.001, required = False, exclusive_group = None\<rparr>,
      \<lparr>option_string = ''--warmup-ratio'', dest = ''warmup_ratio'', arg_type = TFloat,
       nargs_plus = False, arg_default = VFloat 0.1, required = False, exclusive_group = None\<rparr>,
      \<lparr>option_string = ''--output-names'', dest = ''output_names'', arg_type = TStr,
       nargs_plus = True, arg_default = VNone, required = False, exclusive_group = None\<rparr>]"

text \<open>\<^verbatim>\<open>get_args_parser\<close> of \<^verbatim>\<open>test_beaufort.py\<close>, lines 66 to 76.\<close>

definition test_get_args_parser :: "argument list" where
  "test_get_args_parser =
     [\<lparr>option_string = ''--model-dir'', dest = ''model_dir'', arg_type = TStr, nargs_plus = False,
       arg_default = VNone, required = True, exclusive_group = None\<rparr>,
      \<lparr>option_string = ''--dataset'', dest = ''dataset'', arg_type = TStr, nargs_plus = False,
       arg_default = VNone, required = True, exclusive_group = None\<rparr>,
      \<lparr>option_string = ''--output'', dest = ''output'', arg_type = TStr, nargs_plus = False,
       arg_default = VNone, required = True, exclusive_group = None\<rparr>,
      \<lparr>option_string = ''--split'', dest = ''split'', arg_type = TStr, nargs_plus = False,
       arg_default = VStr ''test'', required = False, exclusive_group = None\<rparr>,
      \<lparr>option_string = ''--batch-size'', dest = ''batch_size'', arg_type = TInt,
       nargs_plus = False, arg_default = VInt 32, required = False, exclusive_group = None\<rparr>,
      \<lparr>option_string = ''--log'', dest = ''log'', arg_type = TStr, nargs_plus = False,
       arg_default = VStr ''INFO'', required = False, exclusive_group = None\<rparr>]"

text \<open>
  A command line, after \<^verbatim>\<open>argparse\<close> has told option strings from arguments: \<open>Opt s\<close> is a
  string that stands for the option string \<open>s\<close> (written in full or as an unambiguous
  prefix) or, when the parser has no such option, a string that looks like an option;
  \<open>Arg s\<close> is any other string.
\<close>

datatype token = Opt string | Arg string

fun is_arg :: "token \<Rightarrow> bool" where
  "is_arg (Arg s) = True"
| "is_arg (Opt s) = False"

fun token_text :: "token \<Rightarrow> string" where
  "token_text (Arg s) = s"
| "token_text (Opt s) = s"

datatype parse_error =
    ExpectedOneArgument string
  | ExpectedAtLeastOneArgument string
  | InvalidValue string string
  | NotAllowedWith string string
  | RequiredMissing "string list"
  | UnrecognizedArguments "string list"

text \<open>
  The builtins \<^verbatim>\<open>int\<close> and \<^verbatim>\<open>float\<close> applied to a string are parameters: \<open>None\<close> when they
  raise \<^verbatim>\<open>ValueError\<close>.
\<close>

record converters =
  to_int :: "string \<Rightarrow> int option"
  to_float :: "string \<Rightarrow> real option"

fun get_value :: "converters \<Rightarrow> arg_type \<Rightarrow> string \<Rightarrow> arg_value option" where
  "get_value cv TStr s = Some (VStr s)"
| "get_value cv TInt s = map_option VInt (to_int cv s)"
| "get_value cv TFloat s = map_option VFloat (to_float cv s)"

text \<open>The values of an option with \<^verbatim>\<open>nargs="+"\<close>; the first string that does not convert is the error.\<close>

fun get_values :: "converters \<Rightarrow> arg_type \<Rightarrow> string list \<Rightarrow> string + arg_value list" where
  "get_values cv t [] = Inr []"
| "get_values cv t (s # ss) =
     (case get_value cv t s of
        None \<Rightarrow> Inl s
      | Some v \<Rightarrow> (case get_values cv t ss of Inl e \<Rightarrow> Inl e | Inr vs \<Rightarrow> Inr (v # vs)))"

text \<open>
  The state of a parse: the namespace, the option strings of the arguments seen so far,
  and the strings no argument has consumed.
\<close>

record parse_state =
  namespace :: "string \<rightharpoonup> arg_value"
  seen :: "string list"
  extras :: "string list"

text \<open>
  The members of the mutually exclusive group of \<open>a\<close> that were seen before. A value
  parsed from the command line for a member of a group is a fresh string, never the
  default object, so seeing a member always counts.
\<close>

definition conflicts :: "argument list \<Rightarrow> argument \<Rightarrow> string list \<Rightarrow> string list" where
  "conflicts parser a seen_before =
     map option_string
       (filter (\<lambda>b. exclusive_group a \<noteq> None \<and> exclusive_group b = exclusive_group a \<and>
                     option_string b \<noteq> option_string a \<and> option_string b \<in> set seen_before)
          parser)"

text \<open>\<^verbatim>\<open>take_action\<close>: convert, refuse a conflict within a group, store.\<close>

definition take_action ::
  "converters \<Rightarrow> argument list \<Rightarrow> argument \<Rightarrow> string list \<Rightarrow> parse_state \<Rightarrow>
     parse_error + parse_state" where
  "take_action cv parser a strings st =
     (case (if nargs_plus a
            then map_sum id VList (get_values cv (arg_type a) strings)
            else (case get_value cv (arg_type a) (hd strings) of
                    None \<Rightarrow> Inl (hd strings)
                  | Some v \<Rightarrow> Inr v)) of
        Inl s \<Rightarrow> Inl (InvalidValue (option_string a) s)
      | Inr v \<Rightarrow>
          (case conflicts parser a (seen st) of
             c # cs \<Rightarrow> Inl (NotAllowedWith (option_string a) c)
           | [] \<Rightarrow>
               Inr (st\<lparr>namespace := (namespace st)(dest a \<mapsto> v),
                        seen := seen st @ [option_string a]\<rparr>)))"

text \<open>
  The loop over the command line. An option takes the argument strings that follow it:
  exactly one, or with \<^verbatim>\<open>nargs="+"\<close> all of them and at least one. A string that no option
  takes, and an option string the parser does not have, are set aside.
\<close>

function (sequential) parse_loop ::
  "converters \<Rightarrow> argument list \<Rightarrow> token list \<Rightarrow> parse_state \<Rightarrow> parse_error + parse_state" where
  "parse_loop cv parser [] st = Inr st"
| "parse_loop cv parser (Arg s # ts) st =
     parse_loop cv parser ts (st\<lparr>extras := extras st @ [s]\<rparr>)"
| "parse_loop cv parser (Opt s # ts) st =
     (case find (\<lambda>a. option_string a = s) parser of
        None \<Rightarrow> parse_loop cv parser ts (st\<lparr>extras := extras st @ [s]\<rparr>)
      | Some a \<Rightarrow>
          if nargs_plus a then
            (if takeWhile is_arg ts = [] then Inl (ExpectedAtLeastOneArgument s)
             else (case take_action cv parser a (map token_text (takeWhile is_arg ts)) st of
                     Inl e \<Rightarrow> Inl e
                   | Inr st' \<Rightarrow> parse_loop cv parser (dropWhile is_arg ts) st'))
          else
            (case ts of
               Arg v # ts' \<Rightarrow>
                 (case take_action cv parser a [v] st of
                    Inl e \<Rightarrow> Inl e
                  | Inr st' \<Rightarrow> parse_loop cv parser ts' st')
             | _ \<Rightarrow> Inl (ExpectedOneArgument s)))"
  by pat_completeness auto
termination
  by (relation "measure (\<lambda>(cv, parser, ts, st). length ts)")
    (auto intro: le_imp_less_Suc length_dropWhile_le)

text \<open>The namespace before parsing: every destination holds its default.\<close>

definition defaults :: "argument list \<Rightarrow> (string \<rightharpoonup> arg_value)" where
  "defaults parser = map_of (map (\<lambda>a. (dest a, arg_default a)) parser)"

text \<open>
  \<^verbatim>\<open>parse_args\<close>: after the loop, a required argument that was not seen is an error, and so
  is any string set aside.
\<close>

definition parse_args ::
  "converters \<Rightarrow> argument list \<Rightarrow> token list \<Rightarrow> parse_error + (string \<rightharpoonup> arg_value)" where
  "parse_args cv parser ts =
     (case parse_loop cv parser ts \<lparr>namespace = defaults parser, seen = [], extras = []\<rparr> of
        Inl e \<Rightarrow> Inl e
      | Inr st \<Rightarrow>
          (let missing = map option_string
                 (filter (\<lambda>a. required a \<and> option_string a \<notin> set (seen st)) parser)
           in if missing \<noteq> [] then Inl (RequiredMissing missing)
              else if extras st \<noteq> [] then Inl (UnrecognizedArguments (extras st))
              else Inr (namespace st)))"

text \<open>
  What \<^verbatim>\<open>argparse\<close> keeps true of the option strings seen: no two different members of a
  mutually exclusive group.
\<close>

definition exclusive_ok :: "argument list \<Rightarrow> string list \<Rightarrow> bool" where
  "exclusive_ok parser s =
     (\<forall>a \<in> set parser. \<forall>b \<in> set parser.
        exclusive_group a \<noteq> None \<and> exclusive_group b = exclusive_group a \<and>
        option_string b \<noteq> option_string a \<and> option_string a \<in> set s
        \<longrightarrow> option_string b \<notin> set s)"

section \<open>Example inputs\<close>

text \<open>
  A machine whose input directory \<^verbatim>\<open>data\<close> holds a \<^verbatim>\<open>split_sizes.json\<close> with 1000 training
  samples, and command lines of the training script: a fresh training with the parser's
  defaults and two output names, the same resumed from a checkpoint, and the same with an
  empty checkpoint path.
\<close>

definition example_env :: train_env where
  "example_env =
     \<lparr>timestamp_str = ''2024_01_01_0000'',
      json_file = (\<lambda>p. if p = ''data/split_sizes.json''
                         then Some [''training'' \<mapsto> 1000, ''validation'' \<mapsto> 100]
                         else None)\<rparr>"

text \<open>The same machine without the \<^verbatim>\<open>split_sizes.json\<close> file.\<close>

definition no_file_env :: train_env where
  "no_file_env = \<lparr>timestamp_str = ''2024_01_01_0000'', json_file = (\<lambda>p. None)\<rparr>"

definition fresh_args :: train_args where
  "fresh_args =
     \<lparr>input_arg = ''data'', rotation = None, log = ''INFO'', log_file = None,
      checkpoint = None, model = ''resnet18'', output_arg = ''data/train'',
      epochs = 30, batch_size = 32, learning_rate = 0.001, warmup_ratio = 0.1,
      output_names = Some [''wind_speed'', ''wave_height'']\<rparr>"

definition resume_args :: train_args where
  "resume_args = fresh_args\<lparr>checkpoint := Some ''runs/a/checkpoint-500''\<rparr>"

definition empty_checkpoint_args :: train_args where
  "empty_checkpoint_args = fresh_args\<lparr>checkpoint := Some []\<rparr>"

definition rotation_args :: train_args where
  "rotation_args = fresh_args\<lparr>rotation := Some 15\<rparr>"

text \<open>
  A batch of two samples as the \<^verbatim>\<open>webdataset\<close> loader gives it, and a transform that
  returns the images it is given under the key \<^verbatim>\<open>pixel_values\<close>.
\<close>

definition example_samples :: "string \<rightharpoonup> real pyval" where
  "example_samples =
     [''__key__'' \<mapsto> List [Str ''a'', Str ''b''],
      ''jpg'' \<mapsto> List [Atom 10, Atom 11],
      ''json'' \<mapsto> List
         [Dict [(''wind_speed'', Atom 3), (''wave_height'', Atom 1.5), (''id'', Str ''x'')],
          Dict [(''wave_height'', Atom 2), (''wind_speed'', Atom 5)]]]"

definition example_transform :: "real pyval \<Rightarrow> real pyval" where
  "example_transform images = Dict [(''pixel_values'', images)]"

text \<open>
  Evaluation pairs: two samples with two outputs, and one sample with two outputs whose
  absolute errors differ between the columns.
\<close>

definition example_eval_pred :: "real ndarray \<times> real ndarray" where
  "example_eval_pred =
     (\<lparr>nrows = 2, ncols = 2, cells = [1, 2, 3, 4]\<rparr>,
      \<lparr>nrows = 2, ncols = 2, cells = [0, 0, 0, 0]\<rparr>)"

definition one_row_eval_pred :: "real ndarray \<times> real ndarray" where
  "one_row_eval_pred =
     (\<lparr>nrows = 1, ncols = 2, cells = [1, 3]\<rparr>,
      \<lparr>nrows = 1, ncols = 2, cells = [0, 0]\<rparr>)"

text \<open>Converters that know a few numerals, for the example command lines.\<close>

definition example_converters :: converters where
  "example_converters =
     \<lparr>to_int = (\<lambda>s. if s = ''8'' then Some 8 else if s = ''30'' then Some 30 else None),
      to_float = (\<lambda>s. if s = ''15'' then Some 15 else None)\<rparr>"

section \<open>Properties of the Beaufort test script\<close>

lemma test_loop_calls:
  "c \<in> set (test_loop dev bs) \<Longrightarrow>
     (\<exists>b. c = BatchTo b dev \<or> c = ModelForward b \<or> c = AccuracyAddBatch b)"
  by (induction bs) auto

text \<open>
  Claim C3. The device is chosen by a fixed priority: cuda when CUDA is available,
  otherwise mps when MPS is available, otherwise cpu. The model is moved to that device
  exactly once, and the move comes before \<^verbatim>\<open>model.eval()\<close>, before every forward pass and
  before every batch is moved; every batch is moved to the same device.
\<close>

theorem test_beaufort_device:
  "(cuda_is_available env \<longrightarrow> select_device env = Cuda) \<and>
   (\<not> cuda_is_available env \<and> mps_is_available env \<longrightarrow> select_device env = Mps) \<and>
   (\<not> cuda_is_available env \<and> \<not> mps_is_available env \<longrightarrow> select_device env = Cpu) \<and>
   (\<exists>pre post.
      test_beaufort_main env args = pre @ ModelTo (select_device env) # post \<and>
      (\<forall>c \<in> set pre. c \<noteq> ModelEval \<and> (\<forall>d. c \<noteq> ModelTo d) \<and>
         (\<forall>b. c \<noteq> ModelForward b) \<and> (\<forall>b d. c \<noteq> BatchTo b d)) \<and>
      ModelEval \<in> set post \<and>
      (\<forall>c \<in> set post. (\<forall>d. c \<noteq> ModelTo d) \<and>
         (\<forall>b d. c = BatchTo b d \<longrightarrow> d = select_device env)))"
proof -
  let ?dev = "select_device env"
  let ?pre = "[TorchLoad (path_join (model_dir args) ''model.pt''),
               ImageProcessorFromPretrained (model_dir args),
               LoadDataset (dataset_arg args) (Some (split_arg args))]"
  obtain post where post: "test_beaufort_main env args = ?pre @ ModelTo ?dev # post"
    and post_def: "post = [DatetimeNow, EvaluateLoad ''accuracy'', ModelEval]
        @ test_loop ?dev (loader_batches env
            \<lparr>dl_dataset = \<lparr>data_dir = dataset_arg args, ds_split = split_arg args,
               ds_steps = [MapBatched (PreprocessBatchBeaufort (ImageProcessor (model_dir args))),
                        SelectColumns [''labels'', ''pixel_values'']]\<rparr>,
             dl_batch_size = test_args.batch_size args\<rparr>)
        @ [DatetimeNow, LogInfo LogTestDuration, LogInfo LogAccuracy]"
    by (simp add: test_beaufort_main_def Let_def)
  have pre_ok: "\<forall>c \<in> set ?pre. c \<noteq> ModelEval \<and> (\<forall>d. c \<noteq> ModelTo d) \<and>
         (\<forall>b. c \<noteq> ModelForward b) \<and> (\<forall>b d. c \<noteq> BatchTo b d)"
    by simp
  have eval_in: "ModelEval \<in> set post"
    by (simp add: post_def)
  have post_ok: "\<forall>c \<in> set post. (\<forall>d. c \<noteq> ModelTo d) \<and>
         (\<forall>b d. c = BatchTo b d \<longrightarrow> d = ?dev)"
    unfolding post_def by (auto dest: test_loop_calls)
  have sel: "(cuda_is_available env \<longrightarrow> ?dev = Cuda) \<and>
   (\<not> cuda_is_available env \<and> mps_is_available env \<longrightarrow> ?dev = Mps) \<and>
   (\<not> cuda_is_available env \<and> \<not> mps_is_available env \<longrightarrow> ?dev = Cpu)"
    by (simp add: select_device_def)
  from post pre_ok eval_in post_ok sel show ?thesis
    by blast
qed

theorem test_beaufort_device_witness:
  "\<not> cuda_is_available \<lparr>cuda_is_available = False, mps_is_available = True,
       loader_batches = (\<lambda>l. [0, 1])\<rparr> \<and>
   mps_is_available \<lparr>cuda_is_available = False, mps_is_available = True,
       loader_batches = (\<lambda>l. [0, 1])\<rparr> \<and>
   select_device \<lparr>cuda_is_available = False, mps_is_available = True,
       loader_batches = (\<lambda>l. [0, 1])\<rparr> = Mps \<and>
   test_beaufort_main
     \<lparr>cuda_is_available = False, mps_is_available = True, loader_batches = (\<lambda>l. [0, 1])\<rparr>
     \<lparr>model_dir = ''m'', dataset_arg = ''d'', output_arg = ''o'', split_arg = ''test'',
      batch_size = 32, log = ''INFO''\<rparr>
   = [TorchLoad ''m/model.pt'', ImageProcessorFromPretrained ''m'',
      LoadDataset ''d'' (Some ''test''), ModelTo Mps, DatetimeNow,
      EvaluateLoad ''accuracy'', ModelEval,
      BatchTo 0 Mps, ModelForward 0, AccuracyAddBatch 0,
      BatchTo 1 Mps, ModelForward 1, AccuracyAddBatch 1,
      DatetimeNow, LogInfo LogTestDuration, LogInfo LogAccuracy]"
  using test_beaufort_device
    [of "\<lparr>cuda_is_available = False, mps_is_available = True, loader_batches = (\<lambda>l. [0, 1])\<rparr>"
        "\<lparr>model_dir = ''m'', dataset_arg = ''d'', output_arg = ''o'', split_arg = ''test'',
          batch_size = 32, log = ''INFO''\<rparr>"]
  by (simp add: select_device_def test_beaufort_main_def path_join_def)

section \<open>Properties of batch preprocessing\<close>

lemma label_row_Inr:
  "label_row keys obj = Inr row \<longleftrightarrow> list_all2 (\<lambda>k v. subscript obj k = Inr v) keys row"
proof (induction keys arbitrary: row)
  case Nil
  then show ?case by auto
next
  case (Cons k keys)
  show ?case
    by (cases row) (auto simp: Cons.IH [symmetric] split: sum.splits)
qed

lemma label_rows_Inr_rows:
  "label_rows keys objs = Inr rows \<longleftrightarrow>
     list_all2 (\<lambda>obj row. label_row keys obj = Inr row) objs rows"
proof (induction objs arbitrary: rows)
  case Nil
  then show ?case by auto
next
  case (Cons obj objs)
  show ?case
    by (cases rows) (auto simp: Cons.IH [symmetric] split: sum.splits)
qed

lemma label_rows_Inr:
  "label_rows keys objs = Inr rows \<longleftrightarrow>
     list_all2 (\<lambda>obj row. list_all2 (\<lambda>k v. subscript obj k = Inr v) keys row) objs rows"
  by (simp add: label_rows_Inr_rows label_row_Inr)

lemma label_row_total:
  "\<forall>k \<in> set keys. \<exists>v. subscript obj k = Inr v \<Longrightarrow> \<exists>row. label_row keys obj = Inr row"
  by (induction keys) auto

lemma label_rows_total:
  "\<forall>obj \<in> set objs. \<forall>k \<in> set keys. \<exists>v. subscript obj k = Inr v \<Longrightarrow>
     \<exists>rows. label_rows keys objs = Inr rows"
proof (induction objs)
  case Nil
  then show ?case by simp
next
  case (Cons obj objs)
  then obtain row where "label_row keys obj = Inr row"
    using label_row_total [of keys obj] by auto
  moreover from Cons obtain rows where "label_rows keys objs = Inr rows"
    by auto
  ultimately show ?case by simp
qed

lemma preprocess_batch_Inr:
  "preprocess_batch transform keys samples = Inr s' \<longleftrightarrow>
     (\<exists>jpg px js objs rows.
        samples ''jpg'' = Some jpg \<and>
        subscript (transform jpg) ''pixel_values'' = Inr px \<and>
        samples ''json'' = Some js \<and>
        iterate js = Inr objs \<and>
        label_rows keys objs = Inr rows \<and>
        s' = samples(''pixel_values'' \<mapsto> px, ''labels'' \<mapsto> List (map List rows)))"
  unfolding preprocess_batch_def Let_def
  by (auto split: option.splits sum.splits)

text \<open>
  Claim C4. Whenever \<^verbatim>\<open>preprocess_batch\<close> returns, the returned batch holds under
  \<^verbatim>\<open>pixel_values\<close> the \<^verbatim>\<open>pixel_values\<close> entry of the transform applied to \<^verbatim>\<open>samples["jpg"]\<close>,
  and under \<^verbatim>\<open>labels\<close> one list per object of \<^verbatim>\<open>samples["json"]\<close>, in order, whose \<open>i\<close>-th
  element is that object's value under the \<open>i\<close>-th label key; every other column is as
  before. It does return when the batch has the \<^verbatim>\<open>jpg\<close> column, the transform's result
  has \<^verbatim>\<open>pixel_values\<close>, and the \<^verbatim>\<open>json\<close> column is a list of objects that all have every
  label key.
\<close>

theorem preprocess_batch_effect:
  "(preprocess_batch transform keys samples = Inr s' \<longrightarrow>
      (\<exists>jpg px js objs rows.
         samples ''jpg'' = Some jpg \<and>
         subscript (transform jpg) ''pixel_values'' = Inr px \<and>
         samples ''json'' = Some js \<and>
         iterate js = Inr objs \<and>
         s' ''pixel_values'' = Some px \<and>
         s' ''labels'' = Some (List (map List rows)) \<and>
         length rows = length objs \<and>
         (\<forall>j < length objs. length (rows ! j) = length keys \<and>
            (\<forall>i < length keys. subscript (objs ! j) (keys ! i) = Inr (rows ! j ! i))) \<and>
         (\<forall>k. k \<noteq> ''labels'' \<and> k \<noteq> ''pixel_values'' \<longrightarrow> s' k = samples k))) \<and>
   (samples ''jpg'' = Some jpg0 \<and>
    subscript (transform jpg0) ''pixel_values'' = Inr px0 \<and>
    samples ''json'' = Some (List objs0) \<and>
    (\<forall>obj \<in> set objs0. \<forall>k \<in> set keys. \<exists>v. subscript obj k = Inr v) \<longrightarrow>
      (\<exists>s. preprocess_batch transform keys samples = Inr s))"
proof (intro conjI impI)
  assume "preprocess_batch transform keys samples = Inr s'"
  then obtain jpg px js objs rows where
    h: "samples ''jpg'' = Some jpg"
      "subscript (transform jpg) ''pixel_values'' = Inr px"
      "samples ''json'' = Some js"
      "iterate js = Inr objs"
    and rows: "label_rows keys objs = Inr rows"
    and s': "s' = samples(''pixel_values'' \<mapsto> px, ''labels'' \<mapsto> List (map List rows))"
    unfolding preprocess_batch_Inr by blast
  from rows have r2: "list_all2 (\<lambda>obj row. list_all2 (\<lambda>k v. subscript obj k = Inr v) keys row) objs rows"
    by (simp add: label_rows_Inr)
  then have len: "length rows = length objs"
    by (simp add: list_all2_lengthD)
  have idx: "\<forall>j < length objs. length (rows ! j) = length keys \<and>
            (\<forall>i < length keys. subscript (objs ! j) (keys ! i) = Inr (rows ! j ! i))"
  proof (intro allI impI)
    fix j assume "j < length objs"
    with r2 have "list_all2 (\<lambda>k v. subscript (objs ! j) k = Inr v) keys (rows ! j)"
      by (rule list_all2_nthD)
    then show "length (rows ! j) = length keys \<and>
            (\<forall>i < length keys. subscript (objs ! j) (keys ! i) = Inr (rows ! j ! i))"
      by (simp add: list_all2_conv_all_nth)
  qed
  have px: "s' ''pixel_values'' = Some px" and lb: "s' ''labels'' = Some (List (map List rows))"
    and frame: "\<forall>k. k \<noteq> ''labels'' \<and> k \<noteq> ''pixel_values'' \<longrightarrow> s' k = samples k"
    by (simp_all add: s')
  from h px lb len idx frame show "\<exists>jpg px js objs rows.
         samples ''jpg'' = Some jpg \<and>
         subscript (transform jpg) ''pixel_values'' = Inr px \<and>
         samples ''json'' = Some js \<and>
         iterate js = Inr objs \<and>
         s' ''pixel_values'' = Some px \<and>
         s' ''labels'' = Some (List (map List rows)) \<and>
         length rows = length objs \<and>
         (\<forall>j < length objs. length (rows ! j) = length keys \<and>
            (\<forall>i < length keys. subscript (objs ! j) (keys ! i) = Inr (rows ! j ! i))) \<and>
         (\<forall>k. k \<noteq> ''labels'' \<and> k \<noteq> ''pixel_values'' \<longrightarrow> s' k = samples k)"
    by blast
next
  assume a: "samples ''jpg'' = Some jpg0 \<and>
    subscript (transform jpg0) ''pixel_values'' = Inr px0 \<and>
    samples ''json'' = Some (List objs0) \<and>
    (\<forall>obj \<in> set objs0. \<forall>k \<in> set keys. \<exists>v. subscript obj k = Inr v)"
  then obtain rows where "label_rows keys objs0 = Inr rows"
    using label_rows_total [of objs0 keys] by blast
  with a show "\<exists>s. preprocess_batch transform keys samples = Inr s"
    by (simp add: preprocess_batch_Inr iterate_def)
qed

theorem preprocess_batch_effect_witness:
  "example_samples ''jpg'' = Some (List [Atom 10, Atom 11]) \<and>
   subscript (example_transform (List [Atom 10, Atom 11])) ''pixel_values''
     = Inr (List [Atom 10, Atom 11]) \<and>
   example_samples ''json'' = Some (List
     [Dict [(''wind_speed'', Atom 3), (''wave_height'', Atom 1.5), (''id'', Str ''x'')],
      Dict [(''wave_height'', Atom 2), (''wind_speed'', Atom 5)]]) \<and>
   subscript (Dict [(''wave_height'', Atom 2), (''wind_speed'', Atom 5 :: real pyval)]) ''wind_speed''
     = Inr (Atom 5) \<and>
   result_value
     (preprocess_batch example_transform [''wind_speed'', ''wave_height''] example_samples)
     ''labels'' = Some (List [List [Atom 3, Atom 1.5], List [Atom 5, Atom 2]]) \<and>
   result_value
     (preprocess_batch example_transform [''wind_speed'', ''wave_height''] example_samples)
     ''pixel_values'' = Some (List [Atom 10, Atom 11]) \<and>
   result_value
     (preprocess_batch example_transform [''wind_speed'', ''wave_height''] example_samples)
     ''__key__'' = example_samples ''__key__''"
  using preprocess_batch_effect
    [of example_transform "[''wind_speed'', ''wave_height'']" example_samples _
        "List [Atom 10, Atom 11]" "List [Atom 10, Atom 11]"
        "[Dict [(''wind_speed'', Atom 3), (''wave_height'', Atom 1.5), (''id'', Str ''x'')],
          Dict [(''wave_height'', Atom 2), (''wind_speed'', Atom 5)]]"]
  by (simp add: example_samples_def example_transform_def result_value_def
       preprocess_batch_def subscript_def iterate_def)


section \<open>Properties of the metrics\<close>

lemma mae_key_inj [simp]: "mae_key a = mae_key b \<longleftrightarrow> a = b"
  by (simp add: mae_key_def)

lemma mae_key_neq [simp]: "mae_key a \<noteq> ''mae''"
  by (simp add: mae_key_def)

lemma compute_metrics_loop_frame:
  "compute_metrics_loop metric P L i names res = Inr res' \<Longrightarrow>
     k \<notin> mae_key ` set names \<Longrightarrow> res' k = res k"
proof (induction names arbitrary: i res)
  case Nil
  then show ?case by simp
next
  case (Cons name names)
  from Cons.prems(1) obtain v where
    rec: "compute_metrics_loop metric P L (Suc i) names (res(mae_key name \<mapsto> v)) = Inr res'"
    by (auto split: sum.splits option.splits)
  from Cons.prems(2) have "k \<noteq> mae_key name" and "k \<notin> mae_key ` set names"
    by auto
  with Cons.IH [OF rec] show ?case by simp
qed

lemma compute_metrics_loop_dom:
  "compute_metrics_loop metric P L i names res = Inr res' \<Longrightarrow>
     dom res' = dom res \<union> mae_key ` set names"
proof (induction names arbitrary: i res)
  case Nil
  then show ?case by simp
next
  case (Cons name names)
  from Cons.prems(1) obtain v where
    rec: "compute_metrics_loop metric P L (Suc i) names (res(mae_key name \<mapsto> v)) = Inr res'"
    by (auto split: sum.splits option.splits)
  from Cons.IH [OF rec] show ?case by auto
qed

lemma compute_metrics_loop_entry:
  assumes "compute_metrics_loop metric P L i names res = Inr res'"
    and "j < length names"
  shows "\<exists>pc lc d v. column P (i + j) = Inr pc \<and> column L (i + j) = Inr lc \<and>
           metric pc lc = Inr d \<and> d ''mae'' = Some v \<and>
           (names ! j \<notin> set (drop (Suc j) names) \<longrightarrow> res' (mae_key (names ! j)) = Some v) \<and>
           (\<forall>j'. j < j' \<and> j' < length names \<and> names ! j' = names ! j \<longrightarrow>
              res' (mae_key (names ! j)) \<noteq> None)"
  using assms
proof (induction names arbitrary: i j res)
  case Nil
  then show ?case by simp
next
  case (Cons name names)
  from Cons.prems(1) obtain pc lc d v where
    hd: "column P i = Inr pc" "column L i = Inr lc" "metric pc lc = Inr d" "d ''mae'' = Some v"
    and rec: "compute_metrics_loop metric P L (Suc i) names (res(mae_key name \<mapsto> v)) = Inr res'"
    by (auto split: sum.splits option.splits)
  have dm: "dom res' = dom (res(mae_key name \<mapsto> v)) \<union> mae_key ` set names"
    using rec by (rule compute_metrics_loop_dom)
  show ?case
  proof (cases j)
    case 0
    have "name \<notin> set names \<longrightarrow> res' (mae_key name) = Some v"
    proof
      assume "name \<notin> set names"
      then have "mae_key name \<notin> mae_key ` set names"
        by auto
      from compute_metrics_loop_frame [OF rec this] show "res' (mae_key name) = Some v"
        by simp
    qed
    moreover have "res' (mae_key name) \<noteq> None"
      using dm by (metis UnCI domIff dom_fun_upd insertI1 option.distinct(1))
    ultimately show ?thesis
      using hd 0 by simp
  next
    case (Suc j')
    with Cons.prems(2) have j': "j' < length names" by simp
    from Cons.IH [OF rec j'] obtain pc' lc' d' v' where
      h: "column P (Suc i + j') = Inr pc'" "column L (Suc i + j') = Inr lc'"
        "metric pc' lc' = Inr d'" "d' ''mae'' = Some v'"
        "names ! j' \<notin> set (drop (Suc j') names) \<longrightarrow> res' (mae_key (names ! j')) = Some v'"
        "\<forall>j''. j' < j'' \<and> j'' < length names \<and> names ! j'' = names ! j' \<longrightarrow>
              res' (mae_key (names ! j')) \<noteq> None"
      by blast
    have "\<forall>j''. j < j'' \<and> j'' < length (name # names) \<and> (name # names) ! j'' = (name # names) ! j \<longrightarrow>
              res' (mae_key ((name # names) ! j)) \<noteq> None"
    proof (intro allI impI)
      fix j'' assume a: "j < j'' \<and> j'' < length (name # names) \<and> (name # names) ! j'' = (name # names) ! j"
      then obtain m where m: "j'' = Suc m" by (cases j'') auto
      with a Suc have "j' < m \<and> m < length names \<and> names ! m = names ! j'" by simp
      with h(6) show "res' (mae_key ((name # names) ! j)) \<noteq> None"
        using Suc by auto
    qed
    with h Suc show ?thesis
      by simp
  qed
qed

lemma compute_metrics_loop_total:
  assumes "\<forall>j < length names. \<exists>pc lc d v. column P (i + j) = Inr pc \<and> column L (i + j) = Inr lc \<and>
           metric pc lc = Inr d \<and> d ''mae'' = Some v"
  shows "\<exists>res'. compute_metrics_loop metric P L i names res = Inr res'"
  using assms
proof (induction names arbitrary: i res)
  case Nil
  then show ?case by simp
next
  case (Cons name names)
  from Cons.prems have "\<exists>pc lc d v. column P (i + 0) = Inr pc \<and> column L (i + 0) = Inr lc \<and>
           metric pc lc = Inr d \<and> d ''mae'' = Some v"
    by (metis length_Cons zero_less_Suc)
  then obtain pc lc d v where
    hd: "column P i = Inr pc" "column L i = Inr lc" "metric pc lc = Inr d" "d ''mae'' = Some v"
    by auto
  have "\<forall>j < length names. \<exists>pc lc d v. column P (Suc i + j) = Inr pc \<and> column L (Suc i + j) = Inr lc \<and>
           metric pc lc = Inr d \<and> d ''mae'' = Some v"
  proof (intro allI impI)
    fix j assume "j < length names"
    then have "Suc j < length (name # names)" by simp
    with Cons.prems have "\<exists>pc lc d v. column P (i + Suc j) = Inr pc \<and> column L (i + Suc j) = Inr lc \<and>
           metric pc lc = Inr d \<and> d ''mae'' = Some v"
      by blast
    then show "\<exists>pc lc d v. column P (Suc i + j) = Inr pc \<and> column L (Suc i + j) = Inr lc \<and>
           metric pc lc = Inr d \<and> d ''mae'' = Some v"
      by simp
  qed
  from Cons.IH [OF this] obtain res' where
    "compute_metrics_loop metric P L (Suc i) names (res(mae_key name \<mapsto> v)) = Inr res'"
    by blast
  with hd show ?case by simp
qed


text \<open>
  Claim C1, amended. Take predictions and labels of shape \<open>n\<close> by \<open>k\<close>, \<open>k\<close> the number of
  output names, and a metric that returns a \<^verbatim>\<open>mae\<close> value on each of the \<open>k\<close> pairs of
  columns and on the flattened pair. Then \<^verbatim>\<open>compute_metrics\<close> returns a dictionary whose
  keys are \<^verbatim>\<open>mae\<close> and \<^verbatim>\<open>mae_<name>\<close> for the output names; the value under \<^verbatim>\<open>mae\<close> is the
  metric's value on the flattened arrays, and for every index \<open>i\<close> whose name does not
  occur again at a later index the value under \<^verbatim>\<open>mae_<name>\<close> is the metric's value on
  column \<open>i\<close> of the predictions and column \<open>i\<close> of the labels. The metric is the parameter
  of \<^verbatim>\<open>compute_metrics\<close>, so this holds of the mean absolute error in whatever arithmetic
  the library computes it.
\<close>

theorem compute_metrics_entries:
  assumes "ndarray_ok predictions" and "ndarray_ok labels"
    and "nrows labels = nrows predictions"
    and "ncols predictions = length names" and "ncols labels = length names"
    and cols: "\<forall>i < length names. \<exists>pc lc d v.
          column predictions i = Inr pc \<and> column labels i = Inr lc \<and>
          metric pc lc = Inr d \<and> d ''mae'' = Some v"
    and flat: "metric (flatten predictions) (flatten labels) = Inr dw" "dw ''mae'' = Some w"
  shows "\<exists>results.
     compute_metrics metric names (predictions, labels) = Inr results \<and>
     dom results = insert ''mae'' (mae_key ` set names) \<and>
     results ''mae'' = Some w \<and>
     (\<forall>i < length names. names ! i \<notin> set (drop (Suc i) names) \<longrightarrow>
        (\<exists>pc lc d v.
           column predictions i = Inr pc \<and> column labels i = Inr lc \<and>
           metric pc lc = Inr d \<and> d ''mae'' = Some v \<and>
           results (mae_key (names ! i)) = Some v))"
proof -
  from cols have "\<forall>j < length names. \<exists>pc lc d v.
      column predictions (0 + j) = Inr pc \<and> column labels (0 + j) = Inr lc \<and>
      metric pc lc = Inr d \<and> d ''mae'' = Some v"
    by simp
  then obtain res where
    res: "compute_metrics_loop metric predictions labels 0 names Map.empty = Inr res"
    using compute_metrics_loop_total by blast
  have cm: "compute_metrics metric names (predictions, labels) = Inr (res(''mae'' \<mapsto> w))"
    using res flat by (simp add: compute_metrics_def)
  have dm: "dom (res(''mae'' \<mapsto> w)) = insert ''mae'' (mae_key ` set names)"
    using compute_metrics_loop_dom [OF res] by simp
  have ov: "(res(''mae'' \<mapsto> w)) ''mae'' = Some w"
    by simp
  have ent: "\<forall>i < length names. names ! i \<notin> set (drop (Suc i) names) \<longrightarrow>
        (\<exists>pc lc d v.
           column predictions i = Inr pc \<and> column labels i = Inr lc \<and>
           metric pc lc = Inr d \<and> d ''mae'' = Some v \<and>
           (res(''mae'' \<mapsto> w)) (mae_key (names ! i)) = Some v)"
  proof (intro allI impI)
    fix i assume i: "i < length names" and last: "names ! i \<notin> set (drop (Suc i) names)"
    from compute_metrics_loop_entry [OF res i] last obtain pc lc d v where
      e: "column predictions i = Inr pc" "column labels i = Inr lc" "metric pc lc = Inr d"
        "d ''mae'' = Some v" "res (mae_key (names ! i)) = Some v"
      by auto
    then have "(res(''mae'' \<mapsto> w)) (mae_key (names ! i)) = Some v"
      by simp
    with e show "\<exists>pc lc d v.
           column predictions i = Inr pc \<and> column labels i = Inr lc \<and>
           metric pc lc = Inr d \<and> d ''mae'' = Some v \<and>
           (res(''mae'' \<mapsto> w)) (mae_key (names ! i)) = Some v"
      by blast
  qed
  from cm dm ov ent show ?thesis
    by blast
qed

theorem compute_metrics_entries_witness:
  "ndarray_ok (fst example_eval_pred) \<and> ndarray_ok (snd example_eval_pred) \<and>
   nrows (snd example_eval_pred) = nrows (fst example_eval_pred) \<and>
   ncols (fst example_eval_pred) = length [''wind_speed'', ''wave_height''] \<and>
   ncols (snd example_eval_pred) = length [''wind_speed'', ''wave_height''] \<and>
   column (fst example_eval_pred) 0 = Inr [1, 3] \<and>
   column (snd example_eval_pred) 0 = Inr [0, 0] \<and>
   result_value (mae_metric [1, 3] [0, 0]) ''mae'' = Some 2 \<and>
   column (fst example_eval_pred) 1 = Inr [2, 4] \<and>
   column (snd example_eval_pred) 1 = Inr [0, 0] \<and>
   result_value (mae_metric [2, 4] [0, 0]) ''mae'' = Some 3 \<and>
   result_value
     (mae_metric (flatten (fst example_eval_pred)) (flatten (snd example_eval_pred)))
     ''mae'' = Some (5 / 2) \<and>
   result_value (compute_metrics mae_metric [''wind_speed'', ''wave_height''] example_eval_pred)
     (mae_key ''wind_speed'') = Some 2 \<and>
   result_value (compute_metrics mae_metric [''wind_speed'', ''wave_height''] example_eval_pred)
     (mae_key ''wave_height'') = Some 3 \<and>
   result_value (compute_metrics mae_metric [''wind_speed'', ''wave_height''] example_eval_pred)
     ''mae'' = Some (5 / 2)"
proof -
  let ?P = "fst example_eval_pred" and ?L = "snd example_eval_pred"
  let ?names = "[''wind_speed'', ''wave_height'']"
  have shape: "ndarray_ok ?P" "ndarray_ok ?L" "nrows ?L = nrows ?P"
    "ncols ?P = length ?names" "ncols ?L = length ?names"
    by (simp_all add: example_eval_pred_def ndarray_ok_def)
  have c0: "column ?P 0 = Inr [1, 3]" "column ?L 0 = Inr [0, 0]"
    and c1: "column ?P 1 = Inr [2, 4]" "column ?L 1 = Inr [0, 0]"
    by (simp_all add: example_eval_pred_def column_def numeral_2_eq_2)
  have m0: "mae_metric [1, 3] [0, 0] = Inr [''mae'' \<mapsto> 2]"
    and m1: "mae_metric [2, 4] [0, 0] = Inr [''mae'' \<mapsto> 3]"
    and mf: "mae_metric (flatten ?P) (flatten ?L) = Inr [''mae'' \<mapsto> 5 / 2]"
    by (simp_all add: mae_metric_def mean_absolute_error_def flatten_def example_eval_pred_def)
  have cols: "\<forall>i < length ?names. \<exists>pc lc d v.
          column ?P i = Inr pc \<and> column ?L i = Inr lc \<and>
          mae_metric pc lc = Inr d \<and> d ''mae'' = Some v"
  proof (intro allI impI)
    fix i assume "i < length ?names"
    then have "i = 0 \<or> i = 1" by auto
    with c0 c1 m0 m1 show "\<exists>pc lc d v.
          column ?P i = Inr pc \<and> column ?L i = Inr lc \<and>
          mae_metric pc lc = Inr d \<and> d ''mae'' = Some v"
      by fastforce
  qed
  have w: "[''mae'' \<mapsto> 5 / 2 :: real] ''mae'' = Some (5 / 2)"
    by simp
  from compute_metrics_entries [OF shape cols mf w] obtain results where
    r: "compute_metrics mae_metric ?names (?P, ?L) = Inr results"
      "results ''mae'' = Some (5 / 2)"
      "\<forall>i < length ?names. ?names ! i \<notin> set (drop (Suc i) ?names) \<longrightarrow>
        (\<exists>pc lc d v.
           column ?P i = Inr pc \<and> column ?L i = Inr lc \<and>
           mae_metric pc lc = Inr d \<and> d ''mae'' = Some v \<and>
           results (mae_key (?names ! i)) = Some v)"
    by blast
  from r(3) [rule_format, of 0] c0 m0 have e0: "results (mae_key ''wind_speed'') = Some 2"
    by auto
  from r(3) [rule_format, of 1] c1 m1 have e1: "results (mae_key ''wave_height'') = Some 3"
    by auto
  from r(1) have cm: "compute_metrics mae_metric ?names example_eval_pred = Inr results"
    by simp
  from shape c0 c1 m0 m1 mf e0 e1 r(2) cm show ?thesis
    by (simp add: result_value_def)
qed

text \<open>
  Claim C1 as stated fails in three ways. With a repeated output name the later column
  overwrites the key: for the names \<^verbatim>\<open>wind_speed wind_speed\<close>, column 0 has mean absolute
  error 1, but the key of index 0 holds 3, the error of column 1. And the mean absolute
  error raises on empty input, so no dictionary is returned for \<open>k = 0\<close> or for \<open>n = 0\<close>.
\<close>

theorem compute_metrics_not_as_claimed:
  "column (fst one_row_eval_pred) 0 = Inr [1] \<and>
   column (snd one_row_eval_pred) 0 = Inr [0] \<and>
   result_value (mae_metric [1] [0]) ''mae'' = Some 1 \<and>
   result_value (compute_metrics mae_metric [''wind_speed'', ''wind_speed''] one_row_eval_pred)
     (mae_key ([''wind_speed'', ''wind_speed''] ! 0)) = Some 3 \<and>
   compute_metrics mae_metric []
     (\<lparr>nrows = 1, ncols = 0, cells = []\<rparr>, \<lparr>nrows = 1, ncols = 0, cells = []\<rparr>)
     = Inl ValueError \<and>
   compute_metrics mae_metric [''wind_speed'']
     (\<lparr>nrows = 0, ncols = 1, cells = []\<rparr>, \<lparr>nrows = 0, ncols = 1, cells = []\<rparr>)
     = Inl ValueError"
  by (simp add: one_row_eval_pred_def result_value_def compute_metrics_def column_def
       flatten_def mae_metric_def mean_absolute_error_def)


section \<open>Properties of the training script\<close>

lemma main_num_training_samples_Inr:
  "main_num_training_samples env args = Inr (n, logs) \<Longrightarrow>
     (case json_file env (path_join (input_arg args) ''split_sizes.json'') of
        Some m \<Rightarrow> m ''training'' = Some n
      | None \<Rightarrow> n = 65536)"
  by (auto simp: main_num_training_samples_def split: option.splits)

lemma main_num_training_samples_logs:
  "main_num_training_samples env args = Inr (n, logs) \<Longrightarrow> \<forall>c \<in> set logs. \<exists>m. c = LogInfo m"
  by (auto simp: main_num_training_samples_def split: option.splits)

lemma main_augmentation_logs:
  "main_augmentation args = Inr rotation_calls \<Longrightarrow> \<forall>c \<in> set rotation_calls. \<exists>m. c = LogInfo m"
  by (auto simp: main_augmentation_def split: option.splits if_splits)

lemma main_setup_calls:
  "main_setup args out_dir k = Inr (processor, mdl, targs, setup_calls) \<Longrightarrow>
     \<forall>c \<in> set setup_calls. (\<exists>p. c = ImageProcessorFromPretrained p) \<or>
       (\<exists>p d. c = SavePretrained p d) \<or> (\<exists>m. c = ModelFromPretrained m) \<or> (\<exists>p. c = TorchLoad p)"
  by (auto simp: main_setup_def split: option.splits)

lemma train_main_InrE:
  assumes "train_main env args = Inr run"
  obtains n logs processor mdl targs setup_calls rotation_calls names where
    "main_num_training_samples env args = Inr (n, logs)"
    "batch_size args \<noteq> 0"
    "main_setup args (main_output_dir env args) (n div batch_size args * epochs args)
       = Inr (processor, mdl, targs, setup_calls)"
    "main_augmentation args = Inr rotation_calls"
    "output_names args = Some names"
    "run = \<lparr>output_dir = main_output_dir env args,
            num_training_samples = n,
            image_processor = processor,
            run_model = mdl,
            run_training_args = targs,
            train_ds = main_train_ds args n (PreprocessBatch processor (Some names)),
            val_ds = main_val_ds args (PreprocessBatch processor (Some names)),
            test_ds = main_test_ds args (PreprocessBatch processor (Some names)),
            calls =
              [LogInfo (LogTrainingOutputs (Some names)),
               Makedirs (output_arg args),
               DatetimeNow]
              @ logs
              @ setup_calls
              @ rotation_calls
              @ [LoadDataset (input_arg args) None,
                 EvaluateLoad ''mae'',
                 TrainerTrain
                   \<lparr>tr_model = mdl, tr_args = targs,
                    tr_train_dataset = main_train_ds args n (PreprocessBatch processor (Some names)),
                    tr_eval_dataset = main_val_ds args (PreprocessBatch processor (Some names)),
                    tr_metric_output_names = Some names\<rparr>
                   (checkpoint args),
                 TrainerPredict
                   \<lparr>tr_model = mdl, tr_args = targs,
                    tr_train_dataset = main_train_ds args n (PreprocessBatch processor (Some names)),
                    tr_eval_dataset = main_val_ds args (PreprocessBatch processor (Some names)),
                    tr_metric_output_names = Some names\<rparr>
                   (main_test_ds args (PreprocessBatch processor (Some names))),
                 LogInfo LogTestResults,
                 TorchSave mdl (path_join (main_output_dir env args) ''model.pt''),
                 LogInfo (LogModelSaved (main_output_dir env args)),
                 WriteFile (path_join (main_output_dir env args) ''output_names.txt'')
                   (str_join [CHR 0x0A] names)]\<rparr>"
  using assms
  unfolding train_main_def floordiv_def Let_def
  by (auto split: sum.splits prod.splits option.splits if_splits)

lemma path_join_last:
  "b \<noteq> [] \<Longrightarrow> last b \<noteq> CHR ''/'' \<Longrightarrow> path_join a b \<noteq> [] \<and> last (path_join a b) \<noteq> CHR ''/''"
  by (simp add: path_join_def)

lemma path_join_plain:
  "a \<noteq> [] \<Longrightarrow> last a \<noteq> CHR ''/'' \<Longrightarrow> take 1 b \<noteq> ''/'' \<Longrightarrow> path_join a b = a @ ''/'' @ b"
  by (simp add: path_join_def)

lemma main_output_dir_last:
  assumes "timestamp_str env \<noteq> []" and "last (timestamp_str env) \<noteq> CHR ''/''"
  shows "main_output_dir env args \<noteq> [] \<and> last (main_output_dir env args) \<noteq> CHR ''/''"
  using assms path_join_last [of pardir] path_join_last [of "timestamp_str env"]
  by (simp add: main_output_dir_def pardir_def split: option.splits)

text \<open>
  Claim C5. In a run without \<^verbatim>\<open>--checkpoint\<close> that returns, \<open>N\<close> is the \<^verbatim>\<open>training\<close> entry of
  \<^verbatim>\<open>split_sizes.json\<close> in the input directory when the file exists and 65536 otherwise;
  the fresh training arguments have \<open>max_steps = (N // batch_size) * epochs\<close>, the quotient
  being the floor of the exact quotient; the training pipeline starts with \<open>take(N)\<close> on
  the \<^verbatim>\<open>train\<close> split and has no other \<open>take\<close>; and the trainer that is trained holds these
  arguments and this dataset. The number of training samples is computed without an
  error both when the file is absent, giving 65536, and when the file has a \<^verbatim>\<open>training\<close>
  entry, giving that entry.
\<close>

theorem train_main_max_steps:
  "(checkpoint args = None \<and> train_main env args = Inr run \<longrightarrow>
      (\<exists>N ta rest tr.
         (case json_file env (path_join (input_arg args) ''split_sizes.json'') of
            Some m \<Rightarrow> m ''training'' = Some N
          | None \<Rightarrow> N = 65536) \<and>
         num_training_samples run = N \<and>
         run_training_args run = TrainingArguments ta \<and>
         max_steps ta = (N div batch_size args) * epochs args \<and>
         max_steps ta = \<lfloor>real_of_int N / real_of_int (batch_size args)\<rfloor> * epochs args \<and>
         ds_split (train_ds run) = ''train'' \<and>
         ds_steps (train_ds run) = Take N # rest \<and>
         (\<forall>n. Take n \<notin> set rest) \<and>
         TrainerTrain tr None \<in> set (calls run) \<and>
         tr_args tr = TrainingArguments ta \<and>
         tr_train_dataset tr = train_ds run)) \<and>
   (json_file env (path_join (input_arg args) ''split_sizes.json'') = None \<longrightarrow>
      main_num_training_samples env args = Inr (65536, [LogInfo (LogNoSplitSizes 65536)])) \<and>
   (\<forall>m N. json_file env (path_join (input_arg args) ''split_sizes.json'') = Some m \<and>
      m ''training'' = Some N \<longrightarrow>
      main_num_training_samples env args
        = Inr (N, [LogInfo (LogSplitSizesLoaded
                     (path_join (input_arg args) ''split_sizes.json'') N)]))"
proof (intro conjI impI allI)
  assume a: "checkpoint args = None \<and> train_main env args = Inr run"
  then have ck: "checkpoint args = None" and rn: "train_main env args = Inr run"
    by simp_all
  from rn obtain n logs processor mdl targs setup_calls names where
    n: "main_num_training_samples env args = Inr (n, logs)"
    and su: "main_setup args (main_output_dir env args) (n div batch_size args * epochs args)
       = Inr (processor, mdl, targs, setup_calls)"
    and run: "run_training_args run = targs"
      "num_training_samples run = n"
      "train_ds run = main_train_ds args n (PreprocessBatch processor (Some names))"
      "TrainerTrain
         \<lparr>tr_model = mdl, tr_args = targs,
          tr_train_dataset = main_train_ds args n (PreprocessBatch processor (Some names)),
          tr_eval_dataset = main_val_ds args (PreprocessBatch processor (Some names)),
          tr_metric_output_names = Some names\<rparr>
         (checkpoint args) \<in> set (calls run)"
    by (rule train_main_InrE) simp
  from su ck obtain ta where ta: "targs = TrainingArguments ta"
    and steps: "max_steps ta = n div batch_size args * epochs args"
    by (auto simp: main_setup_def split: option.splits)
  have fl: "\<lfloor>real_of_int n / real_of_int (batch_size args)\<rfloor> = n div batch_size args"
    by (rule floor_divide_of_int_eq)
  have N: "(case json_file env (path_join (input_arg args) ''split_sizes.json'') of
        Some m \<Rightarrow> m ''training'' = Some n | None \<Rightarrow> n = 65536)"
    using n by (rule main_num_training_samples_Inr)
  have ds: "ds_split (train_ds run) = ''train''"
    "\<exists>rest. ds_steps (train_ds run) = Take n # rest \<and> (\<forall>k. Take k \<notin> set rest)"
    by (auto simp: run main_train_ds_def split: option.splits)
  then obtain rest where rest: "ds_steps (train_ds run) = Take n # rest" "\<forall>k. Take k \<notin> set rest"
    by blast
  show "\<exists>N ta rest tr.
         (case json_file env (path_join (input_arg args) ''split_sizes.json'') of
            Some m \<Rightarrow> m ''training'' = Some N
          | None \<Rightarrow> N = 65536) \<and>
         num_training_samples run = N \<and>
         run_training_args run = TrainingArguments ta \<and>
         max_steps ta = (N div batch_size args) * epochs args \<and>
         max_steps ta = \<lfloor>real_of_int N / real_of_int (batch_size args)\<rfloor> * epochs args \<and>
         ds_split (train_ds run) = ''train'' \<and>
         ds_steps (train_ds run) = Take N # rest \<and>
         (\<forall>n. Take n \<notin> set rest) \<and>
         TrainerTrain tr None \<in> set (calls run) \<and>
         tr_args tr = TrainingArguments ta \<and>
         tr_train_dataset tr = train_ds run"
    apply (rule exI [of _ n])
    apply (rule exI [of _ ta])
    apply (rule exI [of _ rest])
    using N ta steps fl ds(1) rest run ck
    by (intro exI [of _ "\<lparr>tr_model = mdl, tr_args = targs,
          tr_train_dataset = main_train_ds args n (PreprocessBatch processor (Some names)),
          tr_eval_dataset = main_val_ds args (PreprocessBatch processor (Some names)),
          tr_metric_output_names = Some names\<rparr>"]) simp
next
  assume "json_file env (path_join (input_arg args) ''split_sizes.json'') = None"
  then show "main_num_training_samples env args = Inr (65536, [LogInfo (LogNoSplitSizes 65536)])"
    by (simp add: main_num_training_samples_def)
next
  fix m N
  assume "json_file env (path_join (input_arg args) ''split_sizes.json'') = Some m \<and>
      m ''training'' = Some N"
  then show "main_num_training_samples env args
        = Inr (N, [LogInfo (LogSplitSizesLoaded
                     (path_join (input_arg args) ''split_sizes.json'') N)])"
    by (simp add: main_num_training_samples_def)
qed

text \<open>
  Claim C7. The calls of a run that returns end with: \<^verbatim>\<open>trainer.train\<close>, the prediction on
  the \<^verbatim>\<open>test\<close> split by the same trainer, the log of the test results, \<^verbatim>\<open>torch.save\<close> of the
  model to \<^verbatim>\<open>model.pt\<close> in the output directory, a log line, and the write of the output
  names joined by newlines to \<^verbatim>\<open>output_names.txt\<close> in the output directory. None of these
  four kinds of call happens earlier. With a time stamp that is not empty and does not end
  in a slash, the two paths are the output directory followed by \<^verbatim>\<open>/model.pt\<close> and
  \<^verbatim>\<open>/output_names.txt\<close>.
\<close>

theorem train_main_order:
  assumes "train_main env args = Inr run"
  shows "\<exists>pre tr names.
     output_names args = Some names \<and>
     calls run = pre @
       [TrainerTrain tr (checkpoint args),
        TrainerPredict tr (test_ds run),
        LogInfo LogTestResults,
        TorchSave (run_model run) (path_join (output_dir run) ''model.pt''),
        LogInfo (LogModelSaved (output_dir run)),
        WriteFile (path_join (output_dir run) ''output_names.txt'') (str_join [CHR 0x0A] names)] \<and>
     (\<forall>c \<in> set pre. (\<forall>t p. c \<noteq> TrainerTrain t p) \<and> (\<forall>t d. c \<noteq> TrainerPredict t d) \<and>
        (\<forall>m p. c \<noteq> TorchSave m p) \<and> (\<forall>p s. c \<noteq> WriteFile p s)) \<and>
     tr_model tr = run_model run \<and>
     ds_split (test_ds run) = ''test'' \<and>
     (timestamp_str env \<noteq> [] \<and> last (timestamp_str env) \<noteq> CHR ''/'' \<longrightarrow>
        path_join (output_dir run) ''model.pt'' = output_dir run @ ''/model.pt'' \<and>
        path_join (output_dir run) ''output_names.txt'' = output_dir run @ ''/output_names.txt'')"
proof -
  from assms obtain n logs processor mdl targs setup_calls rotation_calls names where
    n: "main_num_training_samples env args = Inr (n, logs)"
    and su: "main_setup args (main_output_dir env args) (n div batch_size args * epochs args)
       = Inr (processor, mdl, targs, setup_calls)"
    and au: "main_augmentation args = Inr rotation_calls"
    and names: "output_names args = Some names"
    and run: "run = \<lparr>output_dir = main_output_dir env args,
            num_training_samples = n,
            image_processor = processor,
            run_model = mdl,
            run_training_args = targs,
            train_ds = main_train_ds args n (PreprocessBatch processor (Some names)),
            val_ds = main_val_ds args (PreprocessBatch processor (Some names)),
            test_ds = main_test_ds args (PreprocessBatch processor (Some names)),
            calls =
              [LogInfo (LogTrainingOutputs (Some names)),
               Makedirs (output_arg args),
               DatetimeNow]
              @ logs
              @ setup_calls
              @ rotation_calls
              @ [LoadDataset (input_arg args) None,
                 EvaluateLoad ''mae'',
                 TrainerTrain
                   \<lparr>tr_model = mdl, tr_args = targs,
                    tr_train_dataset = main_train_ds args n (PreprocessBatch processor (Some names)),
                    tr_eval_dataset = main_val_ds args (PreprocessBatch processor (Some names)),
                    tr_metric_output_names = Some names\<rparr>
                   (checkpoint args),
                 TrainerPredict
                   \<lparr>tr_model = mdl, tr_args = targs,
                    tr_train_dataset = main_train_ds args n (PreprocessBatch processor (Some names)),
                    tr_eval_dataset = main_val_ds args (PreprocessBatch processor (Some names)),
                    tr_metric_output_names = Some names\<rparr>
                   (main_test_ds args (PreprocessBatch processor (Some names))),
                 LogInfo LogTestResults,
                 TorchSave mdl (path_join (main_output_dir env args) ''model.pt''),
                 LogInfo (LogModelSaved (main_output_dir env args)),
                 WriteFile (path_join (main_output_dir env args) ''output_names.txt'')
                   (str_join [CHR 0x0A] names)]\<rparr>"
    by (rule train_main_InrE)
  let ?tr = "\<lparr>tr_model = mdl, tr_args = targs,
                    tr_train_dataset = main_train_ds args n (PreprocessBatch processor (Some names)),
                    tr_eval_dataset = main_val_ds args (PreprocessBatch processor (Some names)),
                    tr_metric_output_names = Some names\<rparr>"
  let ?pre = "[LogInfo (LogTrainingOutputs (Some names)), Makedirs (output_arg args), DatetimeNow]
              @ logs @ setup_calls @ rotation_calls
              @ [LoadDataset (input_arg args) None, EvaluateLoad ''mae'']"
  note logs = main_num_training_samples_logs [OF n]
  note rc = main_augmentation_logs [OF au]
  note sc = main_setup_calls [OF su]
  have pre_ok: "\<forall>c \<in> set ?pre. (\<forall>t p. c \<noteq> TrainerTrain t p) \<and> (\<forall>t d. c \<noteq> TrainerPredict t d) \<and>
        (\<forall>m p. c \<noteq> TorchSave m p) \<and> (\<forall>p s. c \<noteq> WriteFile p s)"
    using logs sc rc by auto
  have tail: "calls run = ?pre @
       [TrainerTrain ?tr (checkpoint args),
        TrainerPredict ?tr (test_ds run),
        LogInfo LogTestResults,
        TorchSave (run_model run) (path_join (output_dir run) ''model.pt''),
        LogInfo (LogModelSaved (output_dir run)),
        WriteFile (path_join (output_dir run) ''output_names.txt'') (str_join [CHR 0x0A] names)]"
    by (simp add: run)
  have trm: "tr_model ?tr = run_model run"
    by (simp add: run)
  have tst: "ds_split (test_ds run) = ''test''"
    by (simp add: run main_test_ds_def)
  have paths: "timestamp_str env \<noteq> [] \<and> last (timestamp_str env) \<noteq> CHR ''/'' \<longrightarrow>
        path_join (output_dir run) ''model.pt'' = output_dir run @ ''/model.pt'' \<and>
        path_join (output_dir run) ''output_names.txt'' = output_dir run @ ''/output_names.txt''"
  proof
    assume "timestamp_str env \<noteq> [] \<and> last (timestamp_str env) \<noteq> CHR ''/''"
    then have "main_output_dir env args \<noteq> [] \<and> last (main_output_dir env args) \<noteq> CHR ''/''"
      by (simp add: main_output_dir_last)
    then show "path_join (output_dir run) ''model.pt'' = output_dir run @ ''/model.pt'' \<and>
        path_join (output_dir run) ''output_names.txt'' = output_dir run @ ''/output_names.txt''"
      by (simp add: run path_join_plain)
  qed
  from names tail pre_ok trm tst paths show ?thesis
    by blast
qed

text \<open>
  Claim C9. Take a run that returns. Every run that returns from the same arguments with
  another value of \<^verbatim>\<open>--rotation\<close> (absent or present) has the same validation and test
  pipelines; these two pipelines never hold an augmentation step; without \<^verbatim>\<open>--rotation\<close>
  the training pipeline holds none either, and with \<^verbatim>\<open>--rotation a\<close> it holds the rotation
  by \<open>a\<close>.
\<close>

theorem train_main_rotation:
  assumes "train_main env args = Inr run"
  shows "(\<forall>r run'. train_main env (args\<lparr>rotation := r\<rparr>) = Inr run' \<longrightarrow>
            val_ds run' = val_ds run \<and> test_ds run' = test_ds run) \<and>
     (\<forall>a. MapBatched (AugmentBatch a) \<notin> set (ds_steps (val_ds run)) \<and>
          MapBatched (AugmentBatch a) \<notin> set (ds_steps (test_ds run))) \<and>
     (rotation args = None \<longrightarrow> (\<forall>a. MapBatched (AugmentBatch a) \<notin> set (ds_steps (train_ds run)))) \<and>
     (\<forall>a. rotation args = Some a \<longrightarrow> MapBatched (AugmentBatch a) \<in> set (ds_steps (train_ds run)))"
proof -
  from assms obtain n logs processor mdl targs setup_calls names where
    n: "main_num_training_samples env args = Inr (n, logs)"
    and su: "main_setup args (main_output_dir env args) (n div batch_size args * epochs args)
       = Inr (processor, mdl, targs, setup_calls)"
    and names: "output_names args = Some names"
    and ds: "train_ds run = main_train_ds args n (PreprocessBatch processor (Some names))"
       "val_ds run = main_val_ds args (PreprocessBatch processor (Some names))"
       "test_ds run = main_test_ds args (PreprocessBatch processor (Some names))"
    by (rule train_main_InrE) simp
  have c1: "val_ds run' = val_ds run \<and> test_ds run' = test_ds run"
    if r: "train_main env (args\<lparr>rotation := r\<rparr>) = Inr run'" for r run'
  proof -
    let ?args = "args\<lparr>rotation := r\<rparr>"
    from r obtain n' logs' processor' mdl' targs' setup_calls' names' where
      n': "main_num_training_samples env ?args = Inr (n', logs')"
      and su': "main_setup ?args (main_output_dir env ?args) (n' div batch_size ?args * epochs ?args)
         = Inr (processor', mdl', targs', setup_calls')"
      and names': "output_names ?args = Some names'"
      and ds': "val_ds run' = main_val_ds ?args (PreprocessBatch processor' (Some names'))"
         "test_ds run' = main_test_ds ?args (PreprocessBatch processor' (Some names'))"
      by (rule train_main_InrE) simp
    from n n' have "n' = n"
      by (simp add: main_num_training_samples_def split: option.splits)
    with su su' have "processor' = processor"
      by (auto simp: main_setup_def main_output_dir_def split: option.splits)
    moreover from names names' have "names' = names"
      by simp
    ultimately show ?thesis
      by (simp add: ds ds' main_val_ds_def main_test_ds_def)
  qed
  have c2: "MapBatched (AugmentBatch a) \<notin> set (ds_steps (val_ds run)) \<and>
          MapBatched (AugmentBatch a) \<notin> set (ds_steps (test_ds run))" for a
    by (simp add: ds main_val_ds_def main_test_ds_def)
  have c3: "rotation args = None \<longrightarrow> (\<forall>a. MapBatched (AugmentBatch a) \<notin> set (ds_steps (train_ds run)))"
    by (simp add: ds main_train_ds_def)
  have c4: "rotation args = Some a \<longrightarrow> MapBatched (AugmentBatch a) \<in> set (ds_steps (train_ds run))" for a
    by (simp add: ds main_train_ds_def)
  from c1 c2 c3 c4 show ?thesis
    by blast
qed

lemmas train_main_eval =
  train_main_def floordiv_def main_num_training_samples_def main_setup_def
  main_augmentation_def torch_load_error_def main_output_dir_def main_train_ds_def
  main_val_ds_def main_test_ds_def Let_def path_join_def pardir_def

theorem train_main_max_steps_witness:
  "checkpoint fresh_args = None \<and>
   (\<exists>run ta. train_main example_env fresh_args = Inr run \<and>
      run_training_args run = TrainingArguments ta \<and>
      max_steps ta = 930 \<and>
      take 1 (ds_steps (train_ds run)) = [Take 1000]) \<and>
   json_file no_file_env (path_join (input_arg fresh_args) ''split_sizes.json'') = None \<and>
   (\<exists>run ta. train_main no_file_env fresh_args = Inr run \<and>
      run_training_args run = TrainingArguments ta \<and>
      max_steps ta = 61440 \<and>
      take 1 (ds_steps (train_ds run)) = [Take 65536])"
proof -
  have h1: "checkpoint fresh_args = None"
    by (simp add: fresh_args_def)
  obtain run where h2: "train_main example_env fresh_args = Inr run"
    by (simp add: train_main_eval example_env_def fresh_args_def)
  from train_main_max_steps [of fresh_args example_env run] h1 h2 obtain N ta rest where
    N: "(case json_file example_env (path_join (input_arg fresh_args) ''split_sizes.json'') of
        Some m \<Rightarrow> m ''training'' = Some N | None \<Rightarrow> N = 65536)"
    and ta: "run_training_args run = TrainingArguments ta"
      "max_steps ta = (N div batch_size fresh_args) * epochs fresh_args"
    and ds: "ds_steps (train_ds run) = Take N # rest"
    by blast
  from N have "N = 1000"
    by (simp add: example_env_def fresh_args_def path_join_def)
  with ta ds h2 have first: "\<exists>run ta. train_main example_env fresh_args = Inr run \<and>
      run_training_args run = TrainingArguments ta \<and>
      max_steps ta = 930 \<and>
      take 1 (ds_steps (train_ds run)) = [Take 1000]"
    by (simp add: fresh_args_def)
  have nf: "json_file no_file_env (path_join (input_arg fresh_args) ''split_sizes.json'') = None"
    by (simp add: no_file_env_def)
  obtain run' where h3: "train_main no_file_env fresh_args = Inr run'"
    by (simp add: train_main_eval no_file_env_def fresh_args_def)
  from train_main_max_steps [of fresh_args no_file_env run'] h1 h3 obtain N' ta' rest' where
    N': "(case json_file no_file_env (path_join (input_arg fresh_args) ''split_sizes.json'') of
        Some m \<Rightarrow> m ''training'' = Some N' | None \<Rightarrow> N' = 65536)"
    and ta': "run_training_args run' = TrainingArguments ta'"
      "max_steps ta' = (N' div batch_size fresh_args) * epochs fresh_args"
    and ds': "ds_steps (train_ds run') = Take N' # rest'"
    by blast
  from N' nf have "N' = 65536"
    by simp
  with ta' ds' h3 have second: "\<exists>run ta. train_main no_file_env fresh_args = Inr run \<and>
      run_training_args run = TrainingArguments ta \<and>
      max_steps ta = 61440 \<and>
      take 1 (ds_steps (train_ds run)) = [Take 65536]"
    by (simp add: fresh_args_def)
  from h1 first nf second show ?thesis
    by blast
qed

text \<open>
  Claim C2 at the failing input \<^verbatim>\<open>--checkpoint ""\<close>. Line 65 tests the truth value of
  \<^verbatim>\<open>args.checkpoint\<close>, so the output directory is the fresh time-stamped one and not
  \<^verbatim>\<open>os.path.join("", os.pardir)\<close>; line 88 tests \<^verbatim>\<open>is None\<close>, so the checkpoint branch runs
  all the same and ends in \<^verbatim>\<open>torch.load("")\<close>, which raises. For a non-empty checkpoint
  the output directory is the parent, as line 66 says. The batch size is read at line 85
  also when a checkpoint is given: with \<^verbatim>\<open>--batch-size 0\<close> the resumed run raises
  \<^verbatim>\<open>ZeroDivisionError\<close>.
\<close>

theorem train_main_empty_checkpoint:
  "checkpoint empty_checkpoint_args = Some [] \<and>
   main_output_dir example_env empty_checkpoint_args = ''data/train/2024_01_01_0000'' \<and>
   main_output_dir example_env empty_checkpoint_args \<noteq> path_join [] pardir \<and>
   train_main example_env empty_checkpoint_args = Inl (FileNotFoundError []) \<and>
   main_output_dir example_env resume_args = path_join ''runs/a/checkpoint-500'' pardir \<and>
   train_main example_env (resume_args\<lparr>batch_size := 0\<rparr>) = Inl ZeroDivisionError"
  by (simp add: train_main_eval example_env_def fresh_args_def empty_checkpoint_args_def
        resume_args_def)

theorem train_main_order_witness:
  "\<exists>run. train_main example_env fresh_args = Inr run \<and>
      take 2 (rev (calls run)) =
        [WriteFile ''data/train/2024_01_01_0000/output_names.txt''
           (''wind_speed'' @ [CHR 0x0A] @ ''wave_height''),
         LogInfo (LogModelSaved ''data/train/2024_01_01_0000'')] \<and>
      rev (calls run) ! 2 =
        TorchSave (MultiHeadModel ''resnet18'' 2) ''data/train/2024_01_01_0000/model.pt''"
proof -
  obtain run where h: "train_main example_env fresh_args = Inr run"
    by (simp add: train_main_eval example_env_def fresh_args_def)
  have out: "output_dir run = ''data/train/2024_01_01_0000''"
    "run_model run = MultiHeadModel ''resnet18'' 2"
    using h by (auto elim!: train_main_InrE
        simp: main_output_dir_def main_setup_def example_env_def fresh_args_def path_join_def)
  from train_main_order [OF h] out h show ?thesis
    by (auto simp: fresh_args_def path_join_def)
qed

theorem train_main_rotation_witness:
  "\<exists>run run'. train_main example_env rotation_args = Inr run \<and>
      train_main example_env (rotation_args\<lparr>rotation := None\<rparr>) = Inr run' \<and>
      val_ds run' = val_ds run \<and> test_ds run' = test_ds run \<and>
      MapBatched (AugmentBatch 15) \<in> set (ds_steps (train_ds run)) \<and>
      MapBatched (AugmentBatch 15) \<notin> set (ds_steps (train_ds run')) \<and>
      train_main example_env (rotation_args\<lparr>rotation := Some (- 5)\<rparr>) = Inl ValueError"
proof -
  obtain run where h: "train_main example_env rotation_args = Inr run"
    by (simp add: train_main_eval example_env_def rotation_args_def fresh_args_def)
  obtain run' where h': "train_main example_env (rotation_args\<lparr>rotation := None\<rparr>) = Inr run'"
    by (simp add: train_main_eval example_env_def rotation_args_def fresh_args_def)
  have r: "rotation rotation_args = Some 15"
    by (simp add: rotation_args_def)
  have r': "rotation (rotation_args\<lparr>rotation := None\<rparr>) = None"
    by simp
  have neg: "train_main example_env (rotation_args\<lparr>rotation := Some (- 5)\<rparr>) = Inl ValueError"
    by (simp add: train_main_eval example_env_def rotation_args_def fresh_args_def)
  from train_main_rotation [OF h] r h'
  have a: "val_ds run' = val_ds run \<and> test_ds run' = test_ds run"
    and b: "MapBatched (AugmentBatch 15) \<in> set (ds_steps (train_ds run))"
    by blast+
  from train_main_rotation [OF h'] r'
  have c: "MapBatched (AugmentBatch 15) \<notin> set (ds_steps (train_ds run'))"
    by blast
  from h h' a b c neg show ?thesis
    by blast
qed


section \<open>Properties of the argument parsers\<close>

lemma Opt_in_dropWhile:
  "Opt x \<in> set (dropWhile is_arg ts) \<longleftrightarrow> Opt x \<in> set ts"
proof (induction ts)
  case Nil
  then show ?case by simp
next
  case (Cons t ts)
  then show ?case by (cases t) auto
qed

lemma take_action_Inr:
  assumes "take_action cv parser a strings st = Inr st'"
  shows "seen st' = seen st @ [option_string a]"
    and "extras st' = extras st"
    and "conflicts parser a (seen st) = []"
    and "\<exists>v. namespace st' = (namespace st)(dest a \<mapsto> v)"
  using assms
  by (auto simp: take_action_def split: sum.splits list.splits)

lemma take_action_NotAllowedWith:
  assumes "take_action cv parser a strings st = Inl (NotAllowedWith x c)"
  shows "x = option_string a \<and> c \<in> set (conflicts parser a (seen st))"
  using assms
  by (auto simp: take_action_def split: sum.splits list.splits)

lemma conflicts_member:
  "c \<in> set (conflicts parser a s) \<longleftrightarrow>
     (\<exists>b \<in> set parser. option_string b = c \<and> exclusive_group a \<noteq> None \<and>
        exclusive_group b = exclusive_group a \<and> c \<noteq> option_string a \<and> c \<in> set s)"
  by (auto simp: conflicts_def)

lemma find_option:
  "find (\<lambda>a. option_string a = s) parser = Some a \<Longrightarrow> a \<in> set parser \<and> option_string a = s"
  by (auto simp: find_Some_iff)

lemma find_option_None:
  "find (\<lambda>a. option_string a = s) parser = None \<longleftrightarrow> s \<notin> option_string ` set parser"
  by (auto simp: find_None_iff)

lemma parse_loop_seen:
  "parse_loop cv parser ts st = Inr st' \<Longrightarrow>
     x \<in> set (seen st') \<longleftrightarrow>
       x \<in> set (seen st) \<or> (Opt x \<in> set ts \<and> x \<in> option_string ` set parser)"
proof (induction cv parser ts st rule: parse_loop.induct)
  case (1 cv parser st)
  then show ?case by simp
next
  case (2 cv parser s ts st)
  then show ?case by simp
next
  case (3 cv parser s ts st)
  show ?case
  proof (cases "find (\<lambda>a. option_string a = s) parser")
    case None
    with "3.prems" have rec: "parse_loop cv parser ts (st\<lparr>extras := extras st @ [s]\<rparr>) = Inr st'"
      by simp
    from None have "s \<notin> option_string ` set parser"
      by (simp add: find_option_None)
    with "3.IH"(1) [OF None rec] show ?thesis
      by (cases "x = s") simp_all
  next
    case (Some a)
    then have a: "a \<in> set parser" "option_string a = s"
      using find_option [of s parser a] by blast+
    then have s: "s \<in> option_string ` set parser"
      by blast
    show ?thesis
    proof (cases "nargs_plus a")
      case True
      with "3.prems" Some have "\<exists>st1.
        take_action cv parser a (map token_text (takeWhile is_arg ts)) st = Inr st1 \<and>
        takeWhile is_arg ts \<noteq> [] \<and>
        parse_loop cv parser (dropWhile is_arg ts) st1 = Inr st'"
        by (simp split: sum.splits if_splits)
      then obtain st1 where
        ta: "take_action cv parser a (map token_text (takeWhile is_arg ts)) st = Inr st1"
        and ne: "takeWhile is_arg ts \<noteq> []"
        and rec: "parse_loop cv parser (dropWhile is_arg ts) st1 = Inr st'"
        by blast
      have "x \<in> set (seen st1) \<longleftrightarrow> x \<in> set (seen st) \<or> x = s"
        using take_action_Inr(1) [OF ta] a by auto
      with "3.IH"(2) [OF Some True ne ta rec] s
      show ?thesis
        by (cases "x = s") (simp_all add: Opt_in_dropWhile)
    next
      case False
      with "3.prems" Some have "\<exists>v ts' st1. ts = Arg v # ts' \<and>
        take_action cv parser a [v] st = Inr st1 \<and>
        parse_loop cv parser ts' st1 = Inr st'"
        by (simp split: sum.splits list.splits token.splits)
      then obtain v ts' st1 where
        ts: "ts = Arg v # ts'"
        and ta: "take_action cv parser a [v] st = Inr st1"
        and rec: "parse_loop cv parser ts' st1 = Inr st'"
        by blast
      have "x \<in> set (seen st1) \<longleftrightarrow> x \<in> set (seen st) \<or> x = s"
        using take_action_Inr(1) [OF ta] a by auto
      with "3.IH"(3) [OF Some False ts refl ta rec] s ts
      show ?thesis
        by (cases "x = s") simp_all
    qed
  qed
qed

lemma parse_loop_Opt:
  "(find (\<lambda>a. option_string a = s) parser = None \<and>
      parse_loop cv parser (Opt s # ts) st
        = parse_loop cv parser ts (st\<lparr>extras := extras st @ [s]\<rparr>)) \<or>
   (\<exists>a e. find (\<lambda>a. option_string a = s) parser = Some a \<and>
      parse_loop cv parser (Opt s # ts) st = Inl e \<and>
      (e = ExpectedAtLeastOneArgument s \<or> e = ExpectedOneArgument s \<or>
       (\<exists>strings. take_action cv parser a strings st = Inl e))) \<or>
   (\<exists>a strings rest st1. find (\<lambda>a. option_string a = s) parser = Some a \<and>
      take_action cv parser a strings st = Inr st1 \<and>
      parse_loop cv parser (Opt s # ts) st = parse_loop cv parser rest st1 \<and>
      length rest \<le> length ts \<and>
      (\<forall>x. Opt x \<in> set rest \<longleftrightarrow> Opt x \<in> set ts))"
proof (cases "find (\<lambda>a. option_string a = s) parser")
  case None
  then show ?thesis by simp
next
  case (Some a)
  show ?thesis
  proof (cases "nargs_plus a")
    case True
    show ?thesis
    proof (cases "takeWhile is_arg ts = []")
      case True
      with Some \<open>nargs_plus a\<close> show ?thesis by simp
    next
      case False
      show ?thesis
      proof (cases "take_action cv parser a (map token_text (takeWhile is_arg ts)) st")
        case (Inl e)
        with Some False \<open>nargs_plus a\<close> have "parse_loop cv parser (Opt s # ts) st = Inl e"
          by simp
        with Some Inl show ?thesis by blast
      next
        case (Inr st1)
        with Some False \<open>nargs_plus a\<close> have
          "parse_loop cv parser (Opt s # ts) st = parse_loop cv parser (dropWhile is_arg ts) st1"
          by simp
        moreover have "length (dropWhile is_arg ts) \<le> length ts"
          by (rule length_dropWhile_le)
        moreover have "\<forall>x. Opt x \<in> set (dropWhile is_arg ts) \<longleftrightarrow> Opt x \<in> set ts"
          by (simp add: Opt_in_dropWhile)
        ultimately show ?thesis
          using Some Inr by blast
      qed
    qed
  next
    case False
    show ?thesis
    proof (cases ts)
      case Nil
      with Some False show ?thesis by simp
    next
      case (Cons t ts')
      show ?thesis
      proof (cases t)
        case (Opt y)
        with Some False Cons show ?thesis by simp
      next
        case (Arg v)
        show ?thesis
        proof (cases "take_action cv parser a [v] st")
          case (Inl e)
          with Some False Cons Arg have "parse_loop cv parser (Opt s # ts) st = Inl e"
            by simp
          with Some Inl show ?thesis by blast
        next
          case (Inr st1)
          with Some False Cons Arg have
            "parse_loop cv parser (Opt s # ts) st = parse_loop cv parser ts' st1"
            by simp
          moreover have "length ts' \<le> length ts"
            by (simp add: Cons)
          moreover have "\<forall>x. Opt x \<in> set ts' \<longleftrightarrow> Opt x \<in> set ts"
            by (simp add: Cons Arg)
          ultimately show ?thesis
            using Some Inr by blast
        qed
      qed
    qed
  qed
qed

lemma take_action_exclusive_ok:
  assumes ta: "take_action cv parser a strings st = Inr st1"
    and a: "a \<in> set parser"
    and d: "distinct (map option_string parser)"
    and ok: "exclusive_ok parser (seen st)"
  shows "exclusive_ok parser (seen st1)"
proof -
  have inj: "\<And>x y. x \<in> set parser \<Longrightarrow> y \<in> set parser \<Longrightarrow>
      option_string x = option_string y \<Longrightarrow> x = y"
    using d by (auto simp: distinct_map dest: inj_onD)
  have seen1: "set (seen st1) = insert (option_string a) (set (seen st))"
    using take_action_Inr(1) [OF ta] by simp
  have nc: "\<And>b. b \<in> set parser \<Longrightarrow> exclusive_group a \<noteq> None \<Longrightarrow>
      exclusive_group b = exclusive_group a \<Longrightarrow> option_string b \<noteq> option_string a \<Longrightarrow>
      option_string b \<notin> set (seen st)"
    using take_action_Inr(3) [OF ta] conflicts_member [of _ parser a "seen st"]
    by (metis empty_iff list.set(1))
  show ?thesis
    unfolding exclusive_ok_def seen1
  proof (intro ballI impI)
    fix x y
    assume x: "x \<in> set parser" and y: "y \<in> set parser"
      and h: "exclusive_group x \<noteq> None \<and> exclusive_group y = exclusive_group x \<and>
        option_string y \<noteq> option_string x \<and>
        option_string x \<in> insert (option_string a) (set (seen st))"
    show "option_string y \<notin> insert (option_string a) (set (seen st))"
    proof (cases "option_string x = option_string a")
      case True
      with inj [OF x a] have xa: "x = a" by simp
      from h have g: "exclusive_group a \<noteq> None" "exclusive_group y = exclusive_group a"
          "option_string y \<noteq> option_string a"
        unfolding xa by auto
      from nc [OF y g] g(3) show ?thesis by simp
    next
      case False
      with h have xs: "option_string x \<in> set (seen st)" by simp
      with ok x y h have ys: "option_string y \<notin> set (seen st)"
        unfolding exclusive_ok_def by blast
      have "option_string y \<noteq> option_string a"
      proof
        assume e: "option_string y = option_string a"
        with inj [OF y a] have ya: "y = a" by simp
        from h have g: "exclusive_group a \<noteq> None" "exclusive_group x = exclusive_group a"
          "option_string x \<noteq> option_string a"
          unfolding ya by auto
        from nc [OF x g] xs show False by simp
      qed
      with ys show ?thesis by simp
    qed
  qed
qed

lemma parse_loop_exclusive_ok:
  assumes d: "distinct (map option_string parser)"
  shows "exclusive_ok parser (seen st) \<Longrightarrow> parse_loop cv parser ts st = Inr st' \<Longrightarrow>
     exclusive_ok parser (seen st')"
proof (induction ts arbitrary: st rule: length_induct)
  case (1 ts)
  show ?case
  proof (cases ts)
    case Nil
    with "1.prems" show ?thesis by simp
  next
    case (Cons t ts')
    show ?thesis
    proof (cases t)
      case (Arg s)
      with Cons "1.prems"(2) have "parse_loop cv parser ts' (st\<lparr>extras := extras st @ [s]\<rparr>) = Inr st'"
        by simp
      moreover have "exclusive_ok parser (seen (st\<lparr>extras := extras st @ [s]\<rparr>))"
        using "1.prems"(1) by simp
      moreover have "length ts' < length ts"
        by (simp add: Cons)
      ultimately show ?thesis
        using "1.IH" by blast
    next
      case (Opt s)
      from parse_loop_Opt [of s parser cv ts' st] consider
        (unknown) "parse_loop cv parser (Opt s # ts') st
          = parse_loop cv parser ts' (st\<lparr>extras := extras st @ [s]\<rparr>)"
        | (failed) a e where "find (\<lambda>a. option_string a = s) parser = Some a"
            "parse_loop cv parser (Opt s # ts') st = Inl e"
            "e = ExpectedAtLeastOneArgument s \<or> e = ExpectedOneArgument s \<or>
             (\<exists>strings. take_action cv parser a strings st = Inl e)"
        | (taken) a strings rest st1 where "find (\<lambda>a. option_string a = s) parser = Some a"
            "take_action cv parser a strings st = Inr st1"
            "parse_loop cv parser (Opt s # ts') st = parse_loop cv parser rest st1"
            "length rest \<le> length ts'"
            "\<forall>x. Opt x \<in> set rest \<longleftrightarrow> Opt x \<in> set ts'"
        by blast
      then show ?thesis
      proof cases
        case unknown
        with Cons Opt "1.prems"(2) have "parse_loop cv parser ts' (st\<lparr>extras := extras st @ [s]\<rparr>) = Inr st'"
          by simp
        moreover have "exclusive_ok parser (seen (st\<lparr>extras := extras st @ [s]\<rparr>))"
          using "1.prems"(1) by simp
        moreover have "length ts' < length ts"
          by (simp add: Cons)
        ultimately show ?thesis
          using "1.IH" by blast
      next
        case (failed a e)
        with Cons Opt "1.prems"(2) show ?thesis by simp
      next
        case (taken a strings rest st1)
        note f = taken(1) and ta = taken(2) and step = taken(3) and len = taken(4)
        from f have "a \<in> set parser"
          using find_option by blast
        from take_action_exclusive_ok [OF ta this d "1.prems"(1)]
        have "exclusive_ok parser (seen st1)" .
        moreover from step Cons Opt "1.prems"(2) have "parse_loop cv parser rest st1 = Inr st'"
          by simp
        moreover from len have "length rest < length ts"
          by (simp add: Cons)
        ultimately show ?thesis
          using "1.IH" by blast
      qed
    qed
  qed
qed

lemma parse_loop_namespace:
  "parse_loop cv parser ts st = Inr st' \<Longrightarrow>
     \<forall>a \<in> set parser. dest a = d \<longrightarrow> Opt (option_string a) \<notin> set ts \<Longrightarrow>
     namespace st' d = namespace st d"
proof (induction ts arbitrary: st rule: length_induct)
  case (1 ts)
  show ?case
  proof (cases ts)
    case Nil
    with "1.prems" show ?thesis by simp
  next
    case (Cons t ts')
    have sub: "\<forall>a \<in> set parser. dest a = d \<longrightarrow> Opt (option_string a) \<notin> set ts'"
      using "1.prems"(2) Cons by simp
    have len: "length ts' < length ts"
      by (simp add: Cons)
    show ?thesis
    proof (cases t)
      case (Arg s)
      with Cons "1.prems"(1) have "parse_loop cv parser ts' (st\<lparr>extras := extras st @ [s]\<rparr>) = Inr st'"
        by simp
      with "1.IH" len sub have "namespace st' d = namespace (st\<lparr>extras := extras st @ [s]\<rparr>) d"
        by blast
      then show ?thesis by simp
    next
      case (Opt s)
      from parse_loop_Opt [of s parser cv ts' st] consider
        (unknown) "parse_loop cv parser (Opt s # ts') st
          = parse_loop cv parser ts' (st\<lparr>extras := extras st @ [s]\<rparr>)"
        | (failed) a e where "find (\<lambda>a. option_string a = s) parser = Some a"
            "parse_loop cv parser (Opt s # ts') st = Inl e"
            "e = ExpectedAtLeastOneArgument s \<or> e = ExpectedOneArgument s \<or>
             (\<exists>strings. take_action cv parser a strings st = Inl e)"
        | (taken) a strings rest st1 where "find (\<lambda>a. option_string a = s) parser = Some a"
            "take_action cv parser a strings st = Inr st1"
            "parse_loop cv parser (Opt s # ts') st = parse_loop cv parser rest st1"
            "length rest \<le> length ts'"
            "\<forall>x. Opt x \<in> set rest \<longleftrightarrow> Opt x \<in> set ts'"
        by blast
      then show ?thesis
      proof cases
        case unknown
        with Cons Opt "1.prems"(1) have "parse_loop cv parser ts' (st\<lparr>extras := extras st @ [s]\<rparr>) = Inr st'"
          by simp
        with "1.IH" len sub have "namespace st' d = namespace (st\<lparr>extras := extras st @ [s]\<rparr>) d"
          by blast
        then show ?thesis by simp
      next
        case (failed a e)
        with Cons Opt "1.prems"(1) show ?thesis by simp
      next
        case (taken a strings rest st1)
        note f = taken(1) and ta = taken(2) and step = taken(3) and len' = taken(4)
          and opts = taken(5)
        from f have a: "a \<in> set parser" "option_string a = s"
          using find_option [of s parser a] by blast+
        have "Opt s \<in> set ts"
          by (simp add: Cons Opt)
        with "1.prems"(2) a have nd: "dest a \<noteq> d"
          by blast
        from take_action_Inr(4) [OF ta] obtain v where
          "namespace st1 = (namespace st)(dest a \<mapsto> v)"
          by blast
        with nd have ns1: "namespace st1 d = namespace st d"
          by simp
        from step Cons Opt "1.prems"(1) have rec: "parse_loop cv parser rest st1 = Inr st'"
          by simp
        have sub': "\<forall>a \<in> set parser. dest a = d \<longrightarrow> Opt (option_string a) \<notin> set rest"
          using sub opts by blast
        from len' len have "length rest < length ts" by simp
        with "1.IH" rec sub' have "namespace st' d = namespace st1 d"
          by blast
        with ns1 show ?thesis by simp
      qed
    qed
  qed
qed

lemma parse_loop_NotAllowedWith:
  "parse_loop cv parser ts st = Inl (NotAllowedWith x c) \<Longrightarrow>
     Opt x \<in> set ts \<and> (c \<in> set (seen st) \<or> Opt c \<in> set ts) \<and>
     (\<exists>a \<in> set parser. \<exists>b \<in> set parser. option_string a = x \<and> option_string b = c \<and>
        exclusive_group a \<noteq> None \<and> exclusive_group b = exclusive_group a \<and> c \<noteq> x)"
proof (induction ts arbitrary: st rule: length_induct)
  case (1 ts)
  let ?G = "\<exists>a \<in> set parser. \<exists>b \<in> set parser. option_string a = x \<and> option_string b = c \<and>
        exclusive_group a \<noteq> None \<and> exclusive_group b = exclusive_group a \<and> c \<noteq> x"
  show ?case
  proof (cases ts)
    case Nil
    with "1.prems" show ?thesis by simp
  next
    case (Cons t ts')
    have len: "length ts' < length ts"
      by (simp add: Cons)
    show ?thesis
    proof (cases t)
      case (Arg s)
      with Cons "1.prems" have
        "parse_loop cv parser ts' (st\<lparr>extras := extras st @ [s]\<rparr>) = Inl (NotAllowedWith x c)"
        by simp
      with "1.IH" len have "Opt x \<in> set ts' \<and>
          (c \<in> set (seen (st\<lparr>extras := extras st @ [s]\<rparr>)) \<or> Opt c \<in> set ts') \<and> ?G"
        by blast
      then show ?thesis by (auto simp: Cons)
    next
      case (Opt s)
      from parse_loop_Opt [of s parser cv ts' st] consider
        (unknown) "parse_loop cv parser (Opt s # ts') st
          = parse_loop cv parser ts' (st\<lparr>extras := extras st @ [s]\<rparr>)"
        | (failed) a e where "find (\<lambda>a. option_string a = s) parser = Some a"
            "parse_loop cv parser (Opt s # ts') st = Inl e"
            "e = ExpectedAtLeastOneArgument s \<or> e = ExpectedOneArgument s \<or>
             (\<exists>strings. take_action cv parser a strings st = Inl e)"
        | (taken) a strings rest st1 where "find (\<lambda>a. option_string a = s) parser = Some a"
            "take_action cv parser a strings st = Inr st1"
            "parse_loop cv parser (Opt s # ts') st = parse_loop cv parser rest st1"
            "length rest \<le> length ts'"
            "\<forall>x. Opt x \<in> set rest \<longleftrightarrow> Opt x \<in> set ts'"
        by blast
      then show ?thesis
      proof cases
        case unknown
        with Cons Opt "1.prems" have
          "parse_loop cv parser ts' (st\<lparr>extras := extras st @ [s]\<rparr>) = Inl (NotAllowedWith x c)"
          by simp
        with "1.IH" len have "Opt x \<in> set ts' \<and>
            (c \<in> set (seen (st\<lparr>extras := extras st @ [s]\<rparr>)) \<or> Opt c \<in> set ts') \<and> ?G"
          by blast
        then show ?thesis by (auto simp: Cons)
      next
        case (failed a e)
        note f = failed(1) and r = failed(2) and e = failed(3)
        from r Cons Opt "1.prems" have eq: "e = NotAllowedWith x c" by simp
        with e obtain strings where "take_action cv parser a strings st = Inl (NotAllowedWith x c)"
          by auto
        from take_action_NotAllowedWith [OF this]
        have xa: "x = option_string a" and cm: "c \<in> set (conflicts parser a (seen st))"
          by simp_all
        from f have a: "a \<in> set parser" "option_string a = s"
          using find_option [of s parser a] by blast+
        from cm obtain b where b: "b \<in> set parser" "option_string b = c"
          "exclusive_group a \<noteq> None" "exclusive_group b = exclusive_group a"
          "c \<noteq> option_string a" "c \<in> set (seen st)"
          unfolding conflicts_member by blast
        have "Opt x \<in> set ts"
          by (simp add: Cons Opt xa a)
        moreover have ?G
          using a(1) b xa by blast
        ultimately show ?thesis
          using b(6) by blast
      next
        case (taken a strings rest st1)
        note f = taken(1) and ta = taken(2) and step = taken(3) and len' = taken(4)
          and opts = taken(5)
        from f have a: "a \<in> set parser" "option_string a = s"
          using find_option [of s parser a] by blast+
        from step Cons Opt "1.prems" have rec: "parse_loop cv parser rest st1 = Inl (NotAllowedWith x c)"
          by simp
        from len' len have "length rest < length ts" by simp
        with "1.IH" rec have ih: "Opt x \<in> set rest \<and> (c \<in> set (seen st1) \<or> Opt c \<in> set rest) \<and> ?G"
          by blast
        have s1: "set (seen st1) = insert s (set (seen st))"
          using take_action_Inr(1) [OF ta] a by simp
        have "Opt x \<in> set ts"
          using ih opts by (simp add: Cons)
        moreover have "c \<in> set (seen st) \<or> Opt c \<in> set ts"
          using ih opts s1 by (auto simp: Cons Opt)
        ultimately show ?thesis
          using ih by blast
      qed
    qed
  qed
qed

lemma train_parser_distinct: "distinct (map option_string train_get_args_parser)"
  by (simp add: train_get_args_parser_def)

lemma train_parser_group:
  "a \<in> set train_get_args_parser \<Longrightarrow> exclusive_group a \<noteq> None \<Longrightarrow>
     option_string a = ''--checkpoint'' \<or> option_string a = ''--model''"
  by (auto simp: train_get_args_parser_def)

lemma train_parser_dest_checkpoint:
  "a \<in> set train_get_args_parser \<Longrightarrow> dest a = ''checkpoint'' \<Longrightarrow>
     option_string a = ''--checkpoint''"
  by (auto simp: train_get_args_parser_def)

lemma train_parser_dest_model:
  "a \<in> set train_get_args_parser \<Longrightarrow> dest a = ''model'' \<Longrightarrow> option_string a = ''--model''"
  by (auto simp: train_get_args_parser_def)

lemma train_parser_members:
  "\<lparr>option_string = ''--checkpoint'', dest = ''checkpoint'', arg_type = TStr,
       nargs_plus = False, arg_default = VNone, required = False, exclusive_group = Some 0\<rparr>
     \<in> set train_get_args_parser"
  "\<lparr>option_string = ''--model'', dest = ''model'', arg_type = TStr, nargs_plus = False,
       arg_default = VStr ''resnet18'', required = False, exclusive_group = Some 0\<rparr>
     \<in> set train_get_args_parser"
  by (simp_all add: train_get_args_parser_def)

lemma train_parser_defaults:
  "defaults train_get_args_parser ''checkpoint'' = Some VNone"
  "defaults train_get_args_parser ''model'' = Some (VStr ''resnet18'')"
  by (simp_all add: defaults_def train_get_args_parser_def)

lemma parse_args_Inr:
  assumes "parse_args cv parser ts = Inr ns"
  obtains st where
    "parse_loop cv parser ts \<lparr>namespace = defaults parser, seen = [], extras = []\<rparr> = Inr st"
    "ns = namespace st"
    "\<forall>a \<in> set parser. required a \<longrightarrow> option_string a \<in> set (seen st)"
    "extras st = []"
  using assms
  by (auto simp: parse_args_def Let_def filter_empty_conv split: sum.splits if_splits)

lemma parse_args_NotAllowedWith:
  assumes "parse_args cv parser ts = Inl (NotAllowedWith x c)"
  shows "parse_loop cv parser ts \<lparr>namespace = defaults parser, seen = [], extras = []\<rparr>
           = Inl (NotAllowedWith x c)"
  using assms
  by (auto simp: parse_args_def Let_def split: sum.splits if_splits)

lemma train_parser_both_rejected:
  assumes "Opt ''--checkpoint'' \<in> set ts" and "Opt ''--model'' \<in> set ts"
  shows "\<exists>e. parse_args cv train_get_args_parser ts = Inl e"
proof (cases "parse_args cv train_get_args_parser ts")
  case (Inl e)
  then show ?thesis by blast
next
  case (Inr ns)
  then obtain st where
    loop: "parse_loop cv train_get_args_parser ts
       \<lparr>namespace = defaults train_get_args_parser, seen = [], extras = []\<rparr> = Inr st"
    by (rule parse_args_Inr)
  have "''--checkpoint'' \<in> option_string ` set train_get_args_parser"
    "''--model'' \<in> option_string ` set train_get_args_parser"
    using train_parser_members by (force+)
  with assms have s: "''--checkpoint'' \<in> set (seen st)" "''--model'' \<in> set (seen st)"
    by (simp_all add: parse_loop_seen [OF loop])
  have "exclusive_ok train_get_args_parser
      (seen \<lparr>namespace = defaults train_get_args_parser, seen = [], extras = []\<rparr>)"
    by (simp add: exclusive_ok_def)
  from parse_loop_exclusive_ok [OF train_parser_distinct this loop]
  have "exclusive_ok train_get_args_parser (seen st)" .
  with train_parser_members s have False
    unfolding exclusive_ok_def by force
  then show ?thesis ..
qed

lemma train_parser_conflict_only_both:
  assumes "parse_args cv train_get_args_parser ts = Inl (NotAllowedWith x c)"
  shows "Opt ''--checkpoint'' \<in> set ts \<and> Opt ''--model'' \<in> set ts"
proof -
  from parse_loop_NotAllowedWith [OF parse_args_NotAllowedWith [OF assms]]
  obtain a b where x: "Opt x \<in> set ts" and c: "Opt c \<in> set ts"
    and a: "a \<in> set train_get_args_parser" "option_string a = x" "exclusive_group a \<noteq> None"
    and b: "b \<in> set train_get_args_parser" "option_string b = c"
      "exclusive_group b = exclusive_group a"
    and ne: "c \<noteq> x"
    by auto
  from train_parser_group [OF a(1,3)] a(2)
  have x': "x = ''--checkpoint'' \<or> x = ''--model''" by simp
  from b(3) a(3) have "exclusive_group b \<noteq> None" by simp
  from train_parser_group [OF b(1) this] b(2)
  have c': "c = ''--checkpoint'' \<or> c = ''--model''" by simp
  from x c x' c' ne show ?thesis by auto
qed

lemma train_parser_defaults_kept:
  assumes "parse_args cv train_get_args_parser ts = Inr ns"
  shows "(Opt ''--checkpoint'' \<notin> set ts \<longrightarrow> ns ''checkpoint'' = Some VNone) \<and>
         (Opt ''--model'' \<notin> set ts \<longrightarrow> ns ''model'' = Some (VStr ''resnet18''))"
proof -
  from assms obtain st where
    loop: "parse_loop cv train_get_args_parser ts
       \<lparr>namespace = defaults train_get_args_parser, seen = [], extras = []\<rparr> = Inr st"
    and ns: "ns = namespace st"
    by (rule parse_args_Inr)
  have c: "ns ''checkpoint'' = Some VNone" if "Opt ''--checkpoint'' \<notin> set ts"
  proof -
    from that have "\<forall>a \<in> set train_get_args_parser.
        dest a = ''checkpoint'' \<longrightarrow> Opt (option_string a) \<notin> set ts"
      using train_parser_dest_checkpoint by auto
    from parse_loop_namespace [OF loop this] show ?thesis
      by (simp add: ns train_parser_defaults)
  qed
  have m: "ns ''model'' = Some (VStr ''resnet18'')" if "Opt ''--model'' \<notin> set ts"
  proof -
    from that have "\<forall>a \<in> set train_get_args_parser.
        dest a = ''model'' \<longrightarrow> Opt (option_string a) \<notin> set ts"
      using train_parser_dest_model by auto
    from parse_loop_namespace [OF loop this] show ?thesis
      by (simp add: ns train_parser_defaults)
  qed
  from c m show ?thesis by blast
qed

lemma train_parser_accepts:
  "\<exists>ns. parse_args cv train_get_args_parser [] = Inr ns \<and>
      ns ''checkpoint'' = Some VNone \<and> ns ''model'' = Some (VStr ''resnet18'')"
  "\<exists>ns. parse_args cv train_get_args_parser [Opt ''--checkpoint'', Arg c] = Inr ns \<and>
      ns ''checkpoint'' = Some (VStr c) \<and> ns ''model'' = Some (VStr ''resnet18'')"
  "\<exists>ns. parse_args cv train_get_args_parser [Opt ''--model'', Arg m] = Inr ns \<and>
      ns ''checkpoint'' = Some VNone \<and> ns ''model'' = Some (VStr m)"
  by (simp_all add: parse_args_def train_get_args_parser_def defaults_def take_action_def
      conflicts_def)

text \<open>
  Claim C6. The parser of the training script rejects every command line on which both
  \<^verbatim>\<open>--checkpoint\<close> and \<^verbatim>\<open>--model\<close> occur, and it reports a mutual-exclusion error on no other
  command line. On an accepted command line without \<^verbatim>\<open>--checkpoint\<close> the attribute is
  \<^verbatim>\<open>None\<close>, and without \<^verbatim>\<open>--model\<close> the attribute is \<^verbatim>\<open>resnet18\<close>. The empty command line,
  \<^verbatim>\<open>--checkpoint c\<close> alone and \<^verbatim>\<open>--model m\<close> alone are accepted.
\<close>

theorem train_parser_exclusive:
  "(Opt ''--checkpoint'' \<in> set ts \<and> Opt ''--model'' \<in> set ts \<longrightarrow>
      (\<exists>e. parse_args cv train_get_args_parser ts = Inl e)) \<and>
   (\<forall>x c. parse_args cv train_get_args_parser ts = Inl (NotAllowedWith x c) \<longrightarrow>
      Opt ''--checkpoint'' \<in> set ts \<and> Opt ''--model'' \<in> set ts) \<and>
   (\<forall>ns. parse_args cv train_get_args_parser ts = Inr ns \<longrightarrow>
      (Opt ''--checkpoint'' \<notin> set ts \<longrightarrow> ns ''checkpoint'' = Some VNone) \<and>
      (Opt ''--model'' \<notin> set ts \<longrightarrow> ns ''model'' = Some (VStr ''resnet18''))) \<and>
   (\<exists>ns. parse_args cv train_get_args_parser [] = Inr ns \<and>
      ns ''checkpoint'' = Some VNone \<and> ns ''model'' = Some (VStr ''resnet18'')) \<and>
   (\<exists>ns. parse_args cv train_get_args_parser [Opt ''--checkpoint'', Arg c] = Inr ns \<and>
      ns ''checkpoint'' = Some (VStr c) \<and> ns ''model'' = Some (VStr ''resnet18'')) \<and>
   (\<exists>ns. parse_args cv train_get_args_parser [Opt ''--model'', Arg m] = Inr ns \<and>
      ns ''checkpoint'' = Some VNone \<and> ns ''model'' = Some (VStr m))"
  using train_parser_both_rejected [of ts cv] train_parser_conflict_only_both [of cv ts]
    train_parser_defaults_kept [of cv ts] train_parser_accepts(1) [of cv]
    train_parser_accepts(2) [of cv c] train_parser_accepts(3) [of cv m]
  by blast

theorem train_parser_exclusive_witness:
  "Opt ''--checkpoint'' \<in> set [Opt ''--model'', Arg ''vit'', Opt ''--epochs'', Arg ''8'',
       Opt ''--checkpoint'', Arg ''runs/a/checkpoint-500''] \<and>
   Opt ''--model'' \<in> set [Opt ''--model'', Arg ''vit'', Opt ''--epochs'', Arg ''8'',
       Opt ''--checkpoint'', Arg ''runs/a/checkpoint-500''] \<and>
   parse_args example_converters train_get_args_parser
     [Opt ''--model'', Arg ''vit'', Opt ''--epochs'', Arg ''8'',
      Opt ''--checkpoint'', Arg ''runs/a/checkpoint-500'']
     = Inl (NotAllowedWith ''--checkpoint'' ''--model'') \<and>
   result_value
     (parse_args example_converters train_get_args_parser
        [Opt ''--checkpoint'', Arg ''runs/a/checkpoint-500'']) ''model''
     = Some (VStr ''resnet18'') \<and>
   result_value
     (parse_args example_converters train_get_args_parser
        [Opt ''--checkpoint'', Arg ''runs/a/checkpoint-500'']) ''checkpoint''
     = Some (VStr ''runs/a/checkpoint-500'')"
  using train_parser_exclusive
    [of "[Opt ''--model'', Arg ''vit'', Opt ''--epochs'', Arg ''8'',
          Opt ''--checkpoint'', Arg ''runs/a/checkpoint-500'']"
        example_converters "''runs/a/checkpoint-500''" "''vit''"]
  by (auto simp: parse_args_def train_get_args_parser_def defaults_def take_action_def
      conflicts_def example_converters_def result_value_def)

lemma test_parser_member:
  "\<lparr>option_string = ''--output'', dest = ''output'', arg_type = TStr, nargs_plus = False,
       arg_default = VNone, required = True, exclusive_group = None\<rparr>
     \<in> set test_get_args_parser"
  by (simp add: test_get_args_parser_def)

lemma test_parser_output_required:
  assumes "Opt ''--output'' \<notin> set ts"
  shows "\<exists>e. parse_args cv test_get_args_parser ts = Inl e"
proof (cases "parse_args cv test_get_args_parser ts")
  case (Inl e)
  then show ?thesis by blast
next
  case (Inr ns)
  then obtain st where
    loop: "parse_loop cv test_get_args_parser ts
       \<lparr>namespace = defaults test_get_args_parser, seen = [], extras = []\<rparr> = Inr st"
    and req: "\<forall>a \<in> set test_get_args_parser. required a \<longrightarrow> option_string a \<in> set (seen st)"
    by (rule parse_args_Inr)
  from req test_parser_member have "''--output'' \<in> set (seen st)"
    by force
  with assms have False
    by (simp add: parse_loop_seen [OF loop])
  then show ?thesis ..
qed

lemma test_parser_accepts:
  "\<exists>ns. parse_args cv test_get_args_parser
      [Opt ''--model-dir'', Arg m, Opt ''--dataset'', Arg d, Opt ''--output'', Arg out] = Inr ns \<and>
      ns ''output'' = Some (VStr out)"
  by (simp add: parse_args_def test_get_args_parser_def defaults_def take_action_def
      conflicts_def)

lemma test_beaufort_main_no_write:
  "c \<in> set (test_beaufort_main env args) \<Longrightarrow>
     (\<forall>p s. c \<noteq> WriteFile p s) \<and> (\<forall>m p. c \<noteq> TorchSave m p) \<and>
     (\<forall>p. c \<noteq> Makedirs p) \<and> (\<forall>i p. c \<noteq> SavePretrained i p)"
  by (auto simp: test_beaufort_main_def Let_def dest: test_loop_calls)

text \<open>
  Claim C10. \<^verbatim>\<open>main\<close> of the Beaufort test script makes the same calls whatever the value of
  \<^verbatim>\<open>--output\<close>; none of its calls writes a file, creates a directory or saves a model, and
  its last two calls log the duration and the accuracy. The parser rejects every command
  line without \<^verbatim>\<open>--output\<close>, and accepts one that gives the three required options.
\<close>

theorem test_beaufort_output_unused:
  "(\<forall>out. test_beaufort_main env (args\<lparr>test_args.output_arg := out\<rparr>)
       = test_beaufort_main env args) \<and>
   (\<forall>c \<in> set (test_beaufort_main env args).
      (\<forall>p s. c \<noteq> WriteFile p s) \<and> (\<forall>m p. c \<noteq> TorchSave m p) \<and>
      (\<forall>p. c \<noteq> Makedirs p) \<and> (\<forall>i p. c \<noteq> SavePretrained i p)) \<and>
   (\<exists>pre. test_beaufort_main env args = pre @ [LogInfo LogTestDuration, LogInfo LogAccuracy]) \<and>
   (Opt ''--output'' \<notin> set ts \<longrightarrow> (\<exists>e. parse_args cv test_get_args_parser ts = Inl e)) \<and>
   (\<exists>ns. parse_args cv test_get_args_parser
      [Opt ''--model-dir'', Arg m, Opt ''--dataset'', Arg d, Opt ''--output'', Arg out'] = Inr ns \<and>
      ns ''output'' = Some (VStr out'))"
proof -
  have same: "\<forall>out. test_beaufort_main env (args\<lparr>test_args.output_arg := out\<rparr>)
       = test_beaufort_main env args"
    by (simp add: test_beaufort_main_def)
  have tail: "\<exists>pre. test_beaufort_main env args = pre @ [LogInfo LogTestDuration, LogInfo LogAccuracy]"
    by (simp add: test_beaufort_main_def Let_def)
  from same tail test_beaufort_main_no_write [of _ env args]
    test_parser_output_required [of ts cv] test_parser_accepts [of cv m d out']
  show ?thesis
    by blast
qed

theorem test_beaufort_output_unused_witness:
  "Opt ''--output'' \<notin> set [Opt ''--model-dir'', Arg ''m'', Opt ''--dataset'', Arg ''d''] \<and>
   parse_args example_converters test_get_args_parser
     [Opt ''--model-dir'', Arg ''m'', Opt ''--dataset'', Arg ''d'']
     = Inl (RequiredMissing [''--output'']) \<and>
   test_beaufort_main
     \<lparr>cuda_is_available = True, mps_is_available = False, loader_batches = (\<lambda>l. [7])\<rparr>
     \<lparr>model_dir = ''m'', dataset_arg = ''d'', output_arg = ''results/a'', split_arg = ''test'',
      batch_size = 32, log = ''INFO''\<rparr>
   = test_beaufort_main
     \<lparr>cuda_is_available = True, mps_is_available = False, loader_batches = (\<lambda>l. [7])\<rparr>
     \<lparr>model_dir = ''m'', dataset_arg = ''d'', output_arg = ''results/b'', split_arg = ''test'',
      batch_size = 32, log = ''INFO''\<rparr> \<and>
   test_beaufort_main
     \<lparr>cuda_is_available = True, mps_is_available = False, loader_batches = (\<lambda>l. [7])\<rparr>
     \<lparr>model_dir = ''m'', dataset_arg = ''d'', output_arg = ''results/a'', split_arg = ''test'',
      batch_size = 32, log = ''INFO''\<rparr>
   = [TorchLoad ''m/model.pt'', ImageProcessorFromPretrained ''m'',
      LoadDataset ''d'' (Some ''test''), ModelTo Cuda, DatetimeNow,
      EvaluateLoad ''accuracy'', ModelEval,
      BatchTo 7 Cuda, ModelForward 7, AccuracyAddBatch 7,
      DatetimeNow, LogInfo LogTestDuration, LogInfo LogAccuracy]"
  using test_beaufort_output_unused
    [of "\<lparr>cuda_is_available = True, mps_is_available = False, loader_batches = (\<lambda>l. [7])\<rparr>"
        "\<lparr>model_dir = ''m'', dataset_arg = ''d'', output_arg = ''results/a'', split_arg = ''test'',
          batch_size = 32, log = ''INFO''\<rparr>"
        "[Opt ''--model-dir'', Arg ''m'', Opt ''--dataset'', Arg ''d'']"
        example_converters "''m''" "''d''" "''results/a''"]
  by (simp add: parse_args_def test_get_args_parser_def defaults_def take_action_def
      conflicts_def example_converters_def test_beaufort_main_def select_device_def
      path_join_def)


end
